theory Spec2Isabelle
  imports Complex_Main
begin

section \<open>Values shared by the whole script\<close>

type_synonym address = string
type_synonym hash = string

text \<open>
  A JavaScript number as \<open>parseFloat\<close> and \<open>parseInt\<close> deliver it to the configuration: a
  finite value or \<open>NaN\<close>. Finite values are taken as rationals and their arithmetic as exact;
  the rounding of doubles is not part of the model. Infinite values never pass
  \<open>validateConfig\<close> and are left out.
\<close>

datatype number = Num rat | NaN

fun numLess :: "number \<Rightarrow> number \<Rightarrow> bool" where
  "numLess (Num a) (Num b) = (a < b)"
| "numLess _ _ = False"

fun mathMax :: "number \<Rightarrow> number \<Rightarrow> number" where
  "mathMax (Num a) (Num b) = Num (max a b)"
| "mathMax _ _ = NaN"

fun numMinus :: "number \<Rightarrow> number \<Rightarrow> number" where
  "numMinus (Num a) (Num b) = Num (a - b)"
| "numMinus _ _ = NaN"

text \<open>
  Everything the script can throw. \<open>ProviderError\<close> stands for an error object coming out of
  the ethers library or the RPC node: only its \<open>code\<close> property and the \<open>code\<close> of its nested
  \<open>error\<close> property are ever inspected by the script. The other constructors are the
  \<open>new Error(...)\<close> objects the script builds itself (they carry no \<open>code\<close> property); the
  two integers of a shortfall error are the amounts interpolated into its message, the
  required one first.
\<close>

datatype error =
    ProviderError (code: "string option") (nested_code: "int option")
  | OkbShort int int
  | UsdtShort int int
  | AllowanceShort int int
  | JobOkbShort int int
  | JobUsdtShort int int
  | RangeError
  | RetriesExhausted
  | BalancesInvalid
  | ConfigError string

text \<open>The arguments of the router's \<open>addLiquidityETH\<close>, with the value sent along.\<close>

record deposit =
  dep_token :: address
  dep_amountTokenDesired :: int
  dep_amountTokenMin :: int
  dep_amountETHMin :: int
  dep_to :: address
  dep_deadline :: int
  dep_value :: int

text \<open>
  The state-changing interactions with the chain: \<open>Approve token owner spender amount\<close>,
  \<open>WaitFor txHash\<close> and \<open>AddLiquidityETH router sender parameters\<close>.
\<close>

datatype call =
    Approve address address address int
  | WaitFor hash
  | AddLiquidityETH address address deposit

text \<open>
  The state threaded through every asynchronous function: the chain behind the provider
  (left abstract), the state-changing calls made so far and the timers awaited so far
  (\<open>setTimeout\<close> delays in milliseconds), oldest first.
\<close>

record 'c world =
  chain :: 'c
  calls :: "call list"
  slept :: "int list"

type_synonym ('c, 'a) async = "'c world \<Rightarrow> (error + 'a) \<times> 'c world"

definition sleepFor :: "int \<Rightarrow> 'c world \<Rightarrow> 'c world" where
  "sleepFor ms s = s\<lparr>slept := slept s @ [ms]\<rparr>"

text \<open>
  The control flow of \<open>async\<close> functions: \<open>await\<close> sequences two steps and passes a thrown
  error on, \<open>tryCatch\<close> hands a thrown error to its handler.
\<close>

definition resolve :: "'a \<Rightarrow> ('c, 'a) async" where
  "resolve v s = (Inr v, s)"

definition throw :: "error \<Rightarrow> ('c, 'a) async" where
  "throw e s = (Inl e, s)"

definition settle :: "error + 'a \<Rightarrow> ('c, 'a) async" where
  "settle r s = (r, s)"

definition await :: "('c, 'a) async \<Rightarrow> ('a \<Rightarrow> ('c, 'b) async) \<Rightarrow> ('c, 'b) async" where
  "await m f s = (case m s of (Inl e, s') \<Rightarrow> (Inl e, s') | (Inr v, s') \<Rightarrow> f v s')"

definition tryCatch :: "('c, 'a) async \<Rightarrow> (error \<Rightarrow> ('c, 'a) async) \<Rightarrow> ('c, 'a) async" where
  "tryCatch m handler s = (case m s of (Inl e, s') \<Rightarrow> handler e s' | (Inr v, s') \<Rightarrow> (Inr v, s'))"

text \<open>
  A \<open>view\<close> method reads the chain and cannot change it; a transaction or a confirmation
  wait may change it, and is entered in \<open>calls\<close> when it is started.
\<close>

definition view :: "('c \<Rightarrow> error + 'a) \<Rightarrow> ('c, 'a) async" where
  "view f s = (f (chain s), s)"

definition transact :: "call \<Rightarrow> ('c \<Rightarrow> (error + 'a) \<times> 'c) \<Rightarrow> ('c, 'a) async" where
  "transact c f s = (case f (chain s) of (r, c') \<Rightarrow> (r, s\<lparr>chain := c', calls := calls s @ [c]\<rparr>))"

text \<open>
  BigInt division truncates towards zero. Every divisor in the script is a non-zero literal.
\<close>

definition bigDiv :: "int \<Rightarrow> int \<Rightarrow> int" where
  "bigDiv a b = sgn a * sgn b * (\<bar>a\<bar> div \<bar>b\<bar>)"

text \<open>
  \<open>BigInt(x)\<close> of a number throws a RangeError unless \<open>x\<close> is an integer.
\<close>

fun toBigInt :: "number \<Rightarrow> error + int" where
  "toBigInt (Num x) = (if of_int \<lfloor>x\<rfloor> = x then Inr \<lfloor>x\<rfloor> else Inl RangeError)"
| "toBigInt NaN = Inl RangeError"

section \<open>The interface to ethers\<close>

text \<open>
  The provider, the wallet constructor and the contracts the script talks to, as the
  capabilities it uses. They are not code of this repository: every function below takes
  them as the parameter \<open>E\<close>, and the theorems hold for every such \<open>E\<close>. A contract method is
  given the contract's address first; \<open>erc20_approve\<close> and \<open>router_addLiquidityETH\<close> are
  also given the sending wallet's address.
\<close>

record 'c ethers =
  wallet_address :: "string \<Rightarrow> error + address"
  clock_now :: "'c \<Rightarrow> int"
  provider_getBalance :: "address \<Rightarrow> 'c \<Rightarrow> error + int"
  erc20_balanceOf :: "address \<Rightarrow> address \<Rightarrow> 'c \<Rightarrow> error + int"
  erc20_allowance :: "address \<Rightarrow> address \<Rightarrow> address \<Rightarrow> 'c \<Rightarrow> error + int"
  erc20_totalSupply :: "address \<Rightarrow> 'c \<Rightarrow> error + int"
  erc20_approve :: "address \<Rightarrow> address \<Rightarrow> address \<Rightarrow> int \<Rightarrow> 'c \<Rightarrow> (error + hash) \<times> 'c"
  tx_wait :: "hash \<Rightarrow> 'c \<Rightarrow> (error + unit) \<times> 'c"
  router_getAmountsOut :: "address \<Rightarrow> int \<Rightarrow> address list \<Rightarrow> 'c \<Rightarrow> error + int list"
  router_factory :: "address \<Rightarrow> 'c \<Rightarrow> error + address"
  router_quote :: "address \<Rightarrow> int \<Rightarrow> int \<Rightarrow> int \<Rightarrow> 'c \<Rightarrow> error + int"
  router_addLiquidityETH :: "address \<Rightarrow> address \<Rightarrow> deposit \<Rightarrow> 'c \<Rightarrow> (error + hash) \<times> 'c"
  factory_getPair :: "address \<Rightarrow> address \<Rightarrow> address \<Rightarrow> 'c \<Rightarrow> error + address"
  pair_getReserves :: "address \<Rightarrow> 'c \<Rightarrow> error + int \<times> int"
  pair_token0 :: "address \<Rightarrow> 'c \<Rightarrow> error + address"

section \<open>Configuration\<close>

record config =
  numberOfWallets :: number
  slippageTolerance :: number
  safetyBuffer :: number
  usdt :: address
  potatoSwapRouter :: address
  wokb :: address
  subWalletPrivateKeys :: "string list"

text \<open>
  The amounts the script obtains by floating-point arithmetic followed by
  \<open>toString\<close> and \<open>ethers.parseEther\<close> or \<open>ethers.parseUnits\<close>, which throw on a string they
  cannot parse. Floating point is not modelled; the results are taken as given:
  \<^item> \<open>requiredOkb\<close> is \<open>ethers.parseEther(config.okbPerWallet.toString())\<close>,
  \<^item> \<open>requiredUsdt\<close> is \<open>ethers.parseUnits(config.usdtPerWallet.toString(), 6)\<close>,
  \<^item> \<open>targetUsdt\<close> is \<open>ethers.parseUnits(targetUsdtAmount.toString(), 6)\<close> with
    \<open>targetUsdtAmount = usdtAmountPerLiquidity * (100 - safetyBuffer) / 100\<close>,
  \<^item> \<open>referenceOkb usdtAmount\<close> is \<open>ethers.parseEther(okbNeeded.toString())\<close> with
    \<open>okbNeeded = Number(ethers.formatUnits(usdtAmount, 6)) / 168.44\<close>.
\<close>

record quantities =
  requiredOkb :: "error + int"
  requiredUsdt :: "error + int"
  targetUsdt :: "error + int"
  referenceOkb :: "int \<Rightarrow> error + int"

record wallet =
  privateKey :: string
  address :: address

section \<open>The retry wrapper\<close>

text \<open>
  \<open>error?.code === 'UNKNOWN_ERROR' && error?.error?.code === -32011\<close>
\<close>

fun isTransient :: "error \<Rightarrow> bool" where
  "isTransient (ProviderError c n) = (c = Some ''UNKNOWN_ERROR'' \<and> n = Some (- 32011))"
| "isTransient _ = False"

text \<open>
  The \<open>for\<close> loop of \<open>retryOperation\<close>, started at the loop counter \<open>i\<close>. Leaving the loop
  reaches the final \<open>throw new Error(...)\<close>.
\<close>

function retryLoop ::
  "('c, 'a) async \<Rightarrow> int \<Rightarrow> int \<Rightarrow> int \<Rightarrow> ('c, 'a) async" where
  "retryLoop operation maxRetries delay i s =
     (if i < maxRetries then
        (case operation s of
           (Inr v, s') \<Rightarrow> (Inr v, s')
         | (Inl e, s') \<Rightarrow>
             (let isLastAttempt = (i = maxRetries - 1) in
              if isTransient e \<and> \<not> isLastAttempt
              then retryLoop operation maxRetries delay (i + 1) (sleepFor delay s')
              else (Inl e, s')))
      else (Inl RetriesExhausted, s))"
  by pat_completeness auto
termination
  by (relation "measure (\<lambda>(operation, maxRetries, delay, i, s). nat (maxRetries - i))") auto

declare retryLoop.simps [simp del]

definition retryOperation :: "('c, 'a) async \<Rightarrow> int \<Rightarrow> int \<Rightarrow> ('c, 'a) async" where
  "retryOperation operation maxRetries delay s = retryLoop operation maxRetries delay 0 s"

text \<open>
  The state in which invocation number \<open>k\<close> (counted from 0) of the operation starts, when
  every earlier invocation was followed by one timer of \<open>delay\<close> milliseconds.
\<close>

fun beforeAttempt :: "('c, 'a) async \<Rightarrow> int \<Rightarrow> nat \<Rightarrow> 'c world \<Rightarrow> 'c world" where
  "beforeAttempt operation delay 0 s = s"
| "beforeAttempt operation delay (Suc k) s =
     sleepFor delay (snd (operation (beforeAttempt operation delay k s)))"

section \<open>Configuration checks\<close>

fun startsWith :: "string \<Rightarrow> string \<Rightarrow> bool" where
  "startsWith s [] = True"
| "startsWith [] (p # ps) = False"
| "startsWith (c # s) (p # ps) = (c = p \<and> startsWith s ps)"

fun includesStr :: "string \<Rightarrow> string \<Rightarrow> bool" where
  "includesStr [] p = (p = [])"
| "includesStr (c # s) p = (startsWith (c # s) p \<or> includesStr s p)"

definition isSpace :: "char \<Rightarrow> bool" where
  "isSpace c = (let n = (of_char c :: nat) in (9 \<le> n \<and> n \<le> 13) \<or> n = 32)"

text \<open>\<open>String.prototype.trim\<close>, on the ASCII white space.\<close>

definition trim :: "string \<Rightarrow> string" where
  "trim k = rev (dropWhile isSpace (rev (dropWhile isSpace k)))"

definition isHexDigit :: "char \<Rightarrow> bool" where
  "isHexDigit c = (let n = (of_char c :: nat) in
     (48 \<le> n \<and> n \<le> 57) \<or> (65 \<le> n \<and> n \<le> 70) \<or> (97 \<le> n \<and> n \<le> 102))"

text \<open>The regular expression \<open>/^0x[0-9a-fA-F]{64}$/\<close>.\<close>

definition isPrivateKey :: "string \<Rightarrow> bool" where
  "isPrivateKey k = (length k = 66 \<and> take 2 k = ''0x'' \<and> list_all isHexDigit (drop 2 k))"

definition validateConfig :: "config \<Rightarrow> error + unit" where
  "validateConfig cfg =
     (if list_ex (\<lambda>v. v = [] \<or> includesStr v ''Your'' \<or> includesStr v ''Address'')
           [usdt cfg, potatoSwapRouter cfg, wokb cfg]
      then Inl (ConfigError ''contracts'')
      else if numLess (slippageTolerance cfg) (Num 0) \<or> numLess (Num 50) (slippageTolerance cfg)
      then Inl (ConfigError ''slippageTolerance'')
      else if numLess (safetyBuffer cfg) (Num 0) \<or> numLess (Num 50) (safetyBuffer cfg)
      then Inl (ConfigError ''safetyBuffer'')
      else if length (subWalletPrivateKeys cfg) = 0
      then Inl (ConfigError ''SUB_WALLET_PRIVATE_KEYS'')
      else if Num (of_nat (length (subWalletPrivateKeys cfg))) \<noteq> numberOfWallets cfg
      then Inl (ConfigError ''numberOfWallets'')
      else if list_ex (\<lambda>k. \<not> isPrivateKey (trim k)) (subWalletPrivateKeys cfg)
      then Inl (ConfigError ''privateKey'')
      else Inr ())"

fun loadSubWallets :: "'c ethers \<Rightarrow> string list \<Rightarrow> error + wallet list" where
  "loadSubWallets E [] = Inr []"
| "loadSubWallets E (k # ks) =
     (case wallet_address E (trim k) of
        Inl e \<Rightarrow> Inl e
      | Inr a \<Rightarrow>
          (case loadSubWallets E ks of
             Inl e \<Rightarrow> Inl e
           | Inr wallets \<Rightarrow> Inr (\<lparr>privateKey = trim k, address = a\<rparr> # wallets)))"

section \<open>The balance check before the run\<close>

text \<open>
  What \<open>validateWalletBalances\<close> prints: the balances of wallet number \<open>i + 1\<close> (beside the
  configured requirement), one verdict per asset, or the failure of the check.
\<close>

datatype report =
    WalletBalances nat int int
  | OkbInsufficient
  | OkbSufficient
  | UsdtInsufficient
  | UsdtSufficient
  | BalanceCheckFailed nat error

text \<open>The body of the \<open>try\<close> block for one wallet; \<open>Inl\<close> is what the \<open>catch\<close> receives.\<close>

definition checkWallet ::
  "'c ethers \<Rightarrow> config \<Rightarrow> quantities \<Rightarrow> nat \<Rightarrow> wallet \<Rightarrow> 'c \<Rightarrow> error + bool \<times> report list" where
  "checkWallet E cfg q i wallet c =
     (case provider_getBalance E (address wallet) c of
        Inl e \<Rightarrow> Inl e
      | Inr okbBalance \<Rightarrow>
     (case requiredOkb q of
        Inl e \<Rightarrow> Inl e
      | Inr okbRequired \<Rightarrow>
     (case erc20_balanceOf E (usdt cfg) (address wallet) c of
        Inl e \<Rightarrow> Inl e
      | Inr usdtBalance \<Rightarrow>
     (case requiredUsdt q of
        Inl e \<Rightarrow> Inl e
      | Inr usdtRequired \<Rightarrow>
          (let okbSufficient = (okbBalance \<ge> okbRequired);
               usdtSufficient = (usdtBalance \<ge> usdtRequired)
           in Inr (okbSufficient \<and> usdtSufficient,
                   [WalletBalances (i + 1) okbBalance usdtBalance,
                    if okbSufficient then OkbSufficient else OkbInsufficient,
                    if usdtSufficient then UsdtSufficient else UsdtInsufficient]))))))"

fun validateLoop ::
  "'c ethers \<Rightarrow> config \<Rightarrow> quantities \<Rightarrow> nat \<Rightarrow> wallet list \<Rightarrow> bool \<Rightarrow> report list \<Rightarrow> 'c
   \<Rightarrow> bool \<times> report list" where
  "validateLoop E cfg q i [] allValid out c = (allValid, out)"
| "validateLoop E cfg q i (wallet # wallets) allValid out c =
     (case checkWallet E cfg q i wallet c of
        Inl e \<Rightarrow> validateLoop E cfg q (i + 1) wallets False (out @ [BalanceCheckFailed (i + 1) e]) c
      | Inr (ok, lines) \<Rightarrow> validateLoop E cfg q (i + 1) wallets (allValid \<and> ok) (out @ lines) c)"

definition validateWalletBalances ::
  "'c ethers \<Rightarrow> config \<Rightarrow> quantities \<Rightarrow> wallet list \<Rightarrow> 'c \<Rightarrow> bool \<times> report list" where
  "validateWalletBalances E cfg q wallets c = validateLoop E cfg q 0 wallets True [] c"

section \<open>Authorization\<close>

text \<open>The arrow function that \<open>approveTokenForSwap\<close> hands to \<open>retryOperation\<close>.\<close>

definition approveAttempt ::
  "'c ethers \<Rightarrow> wallet \<Rightarrow> address \<Rightarrow> address \<Rightarrow> int \<Rightarrow> ('c, hash option) async" where
  "approveAttempt E wallet tokenAddress spender amount =
     await (view (erc20_allowance E tokenAddress (address wallet) spender)) (\<lambda>currentAllowance.
     await (view (erc20_totalSupply E tokenAddress)) (\<lambda>totalSupply.
     if currentAllowance \<ge> bigDiv totalSupply 2 then resolve None
     else
       await (if currentAllowance > 0
              then await (transact (Approve tokenAddress (address wallet) spender 0)
                            (erc20_approve E tokenAddress (address wallet) spender 0))
                     (\<lambda>resetTx. transact (WaitFor resetTx) (tx_wait E resetTx))
              else resolve ()) (\<lambda>_.
       await (transact (Approve tokenAddress (address wallet) spender totalSupply)
                (erc20_approve E tokenAddress (address wallet) spender totalSupply)) (\<lambda>tx.
       await (transact (WaitFor tx) (tx_wait E tx)) (\<lambda>_.
       resolve (Some tx))))))"

definition approveTokenForSwap ::
  "'c ethers \<Rightarrow> wallet \<Rightarrow> address \<Rightarrow> address \<Rightarrow> int \<Rightarrow> ('c, hash option) async" where
  "approveTokenForSwap E wallet tokenAddress spender amount =
     retryOperation (approveAttempt E wallet tokenAddress spender amount) 3 2000"

section \<open>The price oracle\<close>

definition lowerChar :: "char \<Rightarrow> char" where
  "lowerChar c = (let n = (of_char c :: nat) in if 65 \<le> n \<and> n \<le> 90 then char_of (n + 32) else c)"

definition toLowerCase :: "string \<Rightarrow> string" where
  "toLowerCase s = map lowerChar s"

definition ZeroAddress :: address where
  "ZeroAddress = ''0x0000000000000000000000000000000000000000''"

text \<open>\<open>ethers.parseEther("0.1")\<close>\<close>

definition minWokbReserve :: int where
  "minWokbReserve = 100000000000000000"

text \<open>
  The inner \<open>try\<close> of \<open>getOkbAmountFromRouter\<close>: the direct route. Its \<open>catch\<close> swallows every
  error, also the one \<open>ethers.formatEther\<close> throws when \<open>amounts[1]\<close> is undefined;
  \<open>None\<close> means that the function goes on to the pool's reserves.
\<close>

definition directRoute :: "'c ethers \<Rightarrow> config \<Rightarrow> int \<Rightarrow> ('c, int option) async" where
  "directRoute E cfg usdtAmount =
     tryCatch
       (await (view (router_getAmountsOut E (potatoSwapRouter cfg) usdtAmount [usdt cfg, wokb cfg]))
          (\<lambda>amounts. if 1 < length amounts then resolve (Some (amounts ! 1))
                      else throw (ProviderError (Some ''INVALID_ARGUMENT'') None)))
       (\<lambda>routerError. resolve None)"

text \<open>The rest of the outer \<open>try\<close>: the quote from the pool's reserves.\<close>

definition reserveQuote :: "'c ethers \<Rightarrow> config \<Rightarrow> int \<Rightarrow> ('c, int option) async" where
  "reserveQuote E cfg usdtAmount =
     await (view (router_factory E (potatoSwapRouter cfg))) (\<lambda>factoryAddress.
     await (view (factory_getPair E factoryAddress (usdt cfg) (wokb cfg))) (\<lambda>pairAddress.
     if pairAddress = ZeroAddress then resolve None
     else
       await (view (pair_getReserves E pairAddress)) (\<lambda>(reserve0, reserve1).
       await (view (pair_token0 E pairAddress)) (\<lambda>token0.
       (let (usdtReserve, wokbReserve) =
              (if toLowerCase token0 = toLowerCase (usdt cfg)
               then (reserve0, reserve1) else (reserve1, reserve0))
        in if wokbReserve < minWokbReserve then resolve None
           else await (view (router_quote E (potatoSwapRouter cfg) usdtAmount usdtReserve wokbReserve))
                  (\<lambda>okbAmount. resolve (Some okbAmount)))))))"

definition getOkbAmountFromRouter ::
  "'c ethers \<Rightarrow> config \<Rightarrow> wallet \<Rightarrow> int \<Rightarrow> ('c, int option) async" where
  "getOkbAmountFromRouter E cfg wallet usdtAmount =
     tryCatch
       (await (directRoute E cfg usdtAmount) (\<lambda>direct.
          case direct of
            Some okbAmount \<Rightarrow> resolve (Some okbAmount)
          | None \<Rightarrow> reserveQuote E cfg usdtAmount))
       (\<lambda>error. resolve None)"

text \<open>
  Modelled from the spec: the \<open>quote\<close> method of the router contract, which is not code of
  this repository, as the constant-product formula
  \<open>outputAmount = knownAmount * reserveB / reserveA\<close> in integer arithmetic.
\<close>

definition quoteFormula :: "int \<Rightarrow> int \<Rightarrow> int \<Rightarrow> int" where
  "quoteFormula amountA reserveA reserveB = amountA * reserveB div reserveA"

definition getPoolRatio ::
  "'c ethers \<Rightarrow> config \<Rightarrow> wallet \<Rightarrow> address \<Rightarrow> ('c, (int \<times> int) option) async" where
  "getPoolRatio E cfg wallet usdtAddress =
     tryCatch
       (await (view (router_factory E (potatoSwapRouter cfg))) (\<lambda>factoryAddress.
        await (view (factory_getPair E factoryAddress (wokb cfg) usdtAddress)) (\<lambda>pairAddress.
        if pairAddress = ZeroAddress then resolve None
        else
          await (view (pair_getReserves E pairAddress)) (\<lambda>(reserve0, reserve1).
          await (view (pair_token0 E pairAddress)) (\<lambda>token0.
          if toLowerCase token0 = toLowerCase (wokb cfg)
          then resolve (Some (reserve0, reserve1))
          else resolve (Some (reserve1, reserve0)))))))
       (\<lambda>error. resolve None)"

text \<open>
  The choice between the quote and the reference price in \<open>main\<close>:
  \<open>if (quotedOkbAmount && quotedOkbAmount > 0)\<close>.
\<close>

definition matchingOkbAmount :: "quantities \<Rightarrow> int \<Rightarrow> int option \<Rightarrow> error + int" where
  "matchingOkbAmount q usdtAmount quotedOkbAmount =
     (case quotedOkbAmount of
        Some quoted \<Rightarrow> if quoted \<noteq> 0 \<and> quoted > 0 then Inr quoted else referenceOkb q usdtAmount
      | None \<Rightarrow> referenceOkb q usdtAmount)"

section \<open>The deposit\<close>

text \<open>
  The slippage lines of \<open>addLiquidityETH\<close>: the minimum amounts for the token and for OKB.
\<close>

definition computeMinimums :: "config \<Rightarrow> int \<Rightarrow> int \<Rightarrow> error + int \<times> int" where
  "computeMinimums cfg usdtAmount okbAmount =
     (let conservativeSlippage = mathMax (slippageTolerance cfg) (Num 5) in
      case toBigInt (numMinus (Num 100) conservativeSlippage) of
        Inl e \<Rightarrow> Inl e
      | Inr slippageMultiplier \<Rightarrow>
          (let usdtAmountMin = bigDiv (usdtAmount * slippageMultiplier) 100;
               okbAmountMin = bigDiv (okbAmount * slippageMultiplier) 100
           in Inr (usdtAmountMin, okbAmountMin)))"

text \<open>The arrow function that \<open>addLiquidityETH\<close> hands to \<open>retryOperation\<close>.\<close>

definition depositAttempt ::
  "'c ethers \<Rightarrow> config \<Rightarrow> wallet \<Rightarrow> address \<Rightarrow> address \<Rightarrow> int \<Rightarrow> int \<Rightarrow> ('c, hash) async" where
  "depositAttempt E cfg wallet routerAddress usdtAddress usdtAmount okbAmount =
     await (approveTokenForSwap E wallet usdtAddress routerAddress usdtAmount) (\<lambda>_.
     await (view (provider_getBalance E (address wallet))) (\<lambda>finalOkbBalance.
     await (view (erc20_balanceOf E usdtAddress (address wallet))) (\<lambda>finalUsdtBalance.
     await (view (erc20_allowance E usdtAddress (address wallet) routerAddress)) (\<lambda>finalUsdtAllowance.
     if finalOkbBalance < okbAmount then throw (OkbShort okbAmount finalOkbBalance)
     else if finalUsdtBalance < usdtAmount then throw (UsdtShort usdtAmount finalUsdtBalance)
     else
       await (view (erc20_totalSupply E usdtAddress)) (\<lambda>usdtTotalSupply.
       if finalUsdtAllowance < usdtAmount \<and> finalUsdtAllowance < bigDiv usdtTotalSupply 2
       then throw (AllowanceShort usdtAmount finalUsdtAllowance)
       else
         await (settle (computeMinimums cfg usdtAmount okbAmount)) (\<lambda>(usdtAmountMin, okbAmountMin).
         await (view (\<lambda>c. Inr (clock_now E c div 1000 + 600))) (\<lambda>deadline.
         await (transact
                  (AddLiquidityETH routerAddress (address wallet)
                     \<lparr>dep_token = usdtAddress, dep_amountTokenDesired = usdtAmount,
                      dep_amountTokenMin = usdtAmountMin, dep_amountETHMin = okbAmountMin,
                      dep_to = address wallet, dep_deadline = deadline, dep_value = okbAmount\<rparr>)
                  (router_addLiquidityETH E routerAddress (address wallet)
                     \<lparr>dep_token = usdtAddress, dep_amountTokenDesired = usdtAmount,
                      dep_amountTokenMin = usdtAmountMin, dep_amountETHMin = okbAmountMin,
                      dep_to = address wallet, dep_deadline = deadline, dep_value = okbAmount\<rparr>)) (\<lambda>tx.
         await (transact (WaitFor tx) (tx_wait E tx)) (\<lambda>_.
         resolve tx)))))))))"

definition addLiquidityETH ::
  "'c ethers \<Rightarrow> config \<Rightarrow> wallet \<Rightarrow> address \<Rightarrow> address \<Rightarrow> int \<Rightarrow> int \<Rightarrow> ('c, hash) async" where
  "addLiquidityETH E cfg wallet routerAddress usdtAddress usdtAmount okbAmount =
     retryOperation (depositAttempt E cfg wallet routerAddress usdtAddress usdtAmount okbAmount) 3 2000"

text \<open>The deposit calls among the calls made so far.\<close>

fun isDeposit :: "call \<Rightarrow> bool" where
  "isDeposit (AddLiquidityETH router sender d) = True"
| "isDeposit _ = False"

definition depositCalls :: "'c world \<Rightarrow> call list" where
  "depositCalls s = filter isDeposit (calls s)"

section \<open>The batch run\<close>

record outcome =
  walletIndex :: nat
  success :: bool
  txHash :: "hash option"
  errorMessage :: "error option"

text \<open>An element of the array \<open>Promise.allSettled\<close> resolves to.\<close>

datatype 'a settled = Fulfilled 'a | Rejected error

definition maxConcurrent :: nat where
  "maxConcurrent = 3"

text \<open>\<open>Array.prototype.slice\<close> for \<open>0 \<le> a \<le> b\<close>.\<close>

definition slice :: "'a list \<Rightarrow> nat \<Rightarrow> nat \<Rightarrow> 'a list" where
  "slice xs a b = take (b - a) (drop a xs)"

text \<open>The \<open>try\<close> block of the callback that \<open>main\<close> maps over a batch.\<close>

definition walletJobBody :: "'c ethers \<Rightarrow> config \<Rightarrow> quantities \<Rightarrow> wallet \<Rightarrow> ('c, hash) async" where
  "walletJobBody E cfg q walletInfo =
     await (getPoolRatio E cfg walletInfo (usdt cfg)) (\<lambda>poolRatio.
     await (settle (targetUsdt q)) (\<lambda>usdtAmount.
     await (getOkbAmountFromRouter E cfg walletInfo usdtAmount) (\<lambda>quotedOkbAmount.
     await (settle (matchingOkbAmount q usdtAmount quotedOkbAmount)) (\<lambda>okbAmount.
     await (view (provider_getBalance E (address walletInfo))) (\<lambda>okbBalance.
     await (view (erc20_balanceOf E (usdt cfg) (address walletInfo))) (\<lambda>usdtBalance.
     if okbBalance < okbAmount then throw (JobOkbShort okbAmount okbBalance)
     else if usdtBalance < usdtAmount then throw (JobUsdtShort usdtAmount usdtBalance)
     else addLiquidityETH E cfg walletInfo (potatoSwapRouter cfg) (usdt cfg) usdtAmount okbAmount))))))"

text \<open>
  The callback itself: its \<open>catch\<close> turns every error into an outcome, so its promise is
  always fulfilled. \<open>body\<close> is the \<open>try\<close> block.
\<close>

definition walletJob ::
  "(wallet \<Rightarrow> ('c, hash) async) \<Rightarrow> nat \<Rightarrow> wallet \<Rightarrow> 'c world \<Rightarrow> outcome settled \<times> 'c world" where
  "walletJob body globalIndex walletInfo s =
     (case body walletInfo s of
        (Inr h, s') \<Rightarrow>
          (Fulfilled \<lparr>walletIndex = globalIndex, success = True, txHash = Some h, errorMessage = None\<rparr>, s')
      | (Inl e, s') \<Rightarrow>
          (Fulfilled \<lparr>walletIndex = globalIndex, success = False, txHash = None, errorMessage = Some e\<rparr>, s'))"

text \<open>
  \<open>batch.map(...)\<close> followed by \<open>Promise.allSettled\<close>: the jobs of one batch, from position
  \<open>index\<close> of the batch on. The jobs of a batch are run to completion one after the other in
  the order of the batch; how their steps interleave is not modelled.
\<close>

fun runBatch ::
  "(wallet \<Rightarrow> ('c, hash) async) \<Rightarrow> nat \<Rightarrow> nat \<Rightarrow> wallet list \<Rightarrow> 'c world
   \<Rightarrow> outcome settled list \<times> 'c world" where
  "runBatch body i index [] s = ([], s)"
| "runBatch body i index (walletInfo # batch) s =
     (case walletJob body (i + index) walletInfo s of
        (result, s1) \<Rightarrow>
          (case runBatch body i (index + 1) batch s1 of
             (results, s2) \<Rightarrow> (result # results, s2)))"

text \<open>The \<open>for\<close> loop over the batches, from the loop counter \<open>i\<close> on.\<close>

function batchLoop ::
  "(wallet \<Rightarrow> ('c, hash) async) \<Rightarrow> wallet list \<Rightarrow> nat \<Rightarrow> outcome settled list \<Rightarrow> 'c world
   \<Rightarrow> outcome settled list \<times> 'c world" where
  "batchLoop body subWallets i liquidityPromises s =
     (if i < length subWallets then
        (case runBatch body i 0 (slice subWallets i (i + maxConcurrent)) s of
           (batchResults, s1) \<Rightarrow>
             batchLoop body subWallets (i + maxConcurrent) (liquidityPromises @ batchResults)
               (if i + maxConcurrent < length subWallets then sleepFor 2000 s1 else s1))
      else (liquidityPromises, s))"
  by pat_completeness auto
termination
  by (relation "measure (\<lambda>(body, subWallets, i, liquidityPromises, s). length subWallets - i)")
     (auto simp: maxConcurrent_def)

declare batchLoop.simps [simp del]



text \<open>
  \<open>main\<close> returns nothing; the model returns what it leaves behind: the error its outer
  \<open>catch\<close> prints, or the array \<open>liquidityPromises\<close>.
\<close>

definition main ::
  "'c ethers \<Rightarrow> config \<Rightarrow> quantities \<Rightarrow> 'c world \<Rightarrow> (error + outcome settled list) \<times> 'c world" where
  "main E cfg q s =
     (case validateConfig cfg of
        Inl e \<Rightarrow> (Inl e, s)
      | Inr _ \<Rightarrow>
     (case loadSubWallets E (subWalletPrivateKeys cfg) of
        Inl e \<Rightarrow> (Inl e, s)
      | Inr subWallets \<Rightarrow>
          (let balancesValid = fst (validateWalletBalances E cfg q subWallets (chain s)) in
           if \<not> balancesValid then (Inl BalancesInvalid, s)
           else
             (case batchLoop (walletJobBody E cfg q) subWallets 0 [] s of
                (liquidityPromises, s') \<Rightarrow> (Inr liquidityPromises, s')))))"

section \<open>The batch schedule in the words of the specification\<close>

text \<open>
  The consecutive groups of at most \<open>limit\<close> jobs into which the specification partitions
  the jobs.
\<close>

function groupsOf :: "nat \<Rightarrow> 'a list \<Rightarrow> 'a list list" where
  "groupsOf limit xs =
     (if limit = 0 \<or> xs = [] then [] else take limit xs # groupsOf limit (drop limit xs))"
  by pat_completeness auto
termination
  by (relation "measure (\<lambda>(limit, xs). length xs)") auto

declare groupsOf.simps [simp del]




section \<open>Sample operations and chains\<close>

text \<open>
  Concrete operations over a chain that is a mere counter of invocations, for running the
  retry wrapper.
\<close>

definition idle :: "nat world" where
  "idle = \<lparr>chain = 0, calls = [], slept = []\<rparr>"

definition rateLimited :: error where
  "rateLimited = ProviderError (Some ''UNKNOWN_ERROR'') (Some (- 32011))"

definition flaky :: "(nat, int) async" where
  "flaky s = (if chain s < 2 then (Inl rateLimited, s\<lparr>chain := Suc (chain s)\<rparr>) else (Inr 7, s))"

definition reverting :: "(nat, int) async" where
  "reverting s = (Inl (ProviderError (Some ''CALL_EXCEPTION'') None), s\<lparr>chain := Suc (chain s)\<rparr>)"

definition congested :: "(nat, int) async" where
  "congested s = (Inl rateLimited, s\<lparr>chain := Suc (chain s)\<rparr>)"

text \<open>
  A small chain with one token, one router and at most one pool, behaving as an ERC-20
  token and a constant-product router do. \<open>allowanceOf\<close> is the allowance towards the router;
  a token whose \<open>approvalsTakeEffect\<close> is false accepts an approval and ignores it.
\<close>

record ledger =
  okbOf :: "address \<Rightarrow> int"
  usdtOf :: "address \<Rightarrow> int"
  allowanceOf :: "address \<Rightarrow> int"
  usdtSupply :: int
  approvalsTakeEffect :: bool
  directOut :: "int option"
  pairAt :: address
  reserves :: "int \<times> int"
  pairToken0 :: address
  nonce :: nat

definition callException :: error where
  "callException = ProviderError (Some ''CALL_EXCEPTION'') None"

definition txHashOf :: "nat \<Rightarrow> hash" where
  "txHashOf n = ''0xtx'' @ replicate n (CHR ''i'')"

definition testnet :: "ledger ethers" where
  "testnet =
     \<lparr>wallet_address = (\<lambda>k. Inr (take 6 k)),
      clock_now = (\<lambda>c. 1700000000000),
      provider_getBalance = (\<lambda>a c. Inr (okbOf c a)),
      erc20_balanceOf = (\<lambda>t a c. Inr (usdtOf c a)),
      erc20_allowance = (\<lambda>t owner spender c. Inr (allowanceOf c owner)),
      erc20_totalSupply = (\<lambda>t c. Inr (usdtSupply c)),
      erc20_approve = (\<lambda>t owner spender n c.
        (Inr (txHashOf (nonce c)),
         c\<lparr>allowanceOf := (if approvalsTakeEffect c then (allowanceOf c)(owner := n) else allowanceOf c),
           nonce := Suc (nonce c)\<rparr>)),
      tx_wait = (\<lambda>h c. (Inr (), c)),
      router_getAmountsOut = (\<lambda>r n path c.
        case directOut c of None \<Rightarrow> Inl callException | Some out \<Rightarrow> Inr [n, out]),
      router_factory = (\<lambda>r c. Inr ''0xFac''),
      router_quote = (\<lambda>r a ra rb c. if a \<le> 0 \<or> ra \<le> 0 \<or> rb \<le> 0 then Inl callException else Inr (a * rb div ra)),
      router_addLiquidityETH = (\<lambda>r sender d c. (Inr (txHashOf (nonce c)), c\<lparr>nonce := Suc (nonce c)\<rparr>)),
      factory_getPair = (\<lambda>f a b c. Inr (pairAt c)),
      pair_getReserves = (\<lambda>p c. Inr (reserves c)),
      pair_token0 = (\<lambda>p c. Inr (pairToken0 c))\<rparr>"

definition sampleConfig :: config where
  "sampleConfig =
     \<lparr>numberOfWallets = Num 2,
      slippageTolerance = Num 10,
      safetyBuffer = Num 10,
      usdt = ''0x1e4a5963abfd975d8c9021ce480b42188849d41d'',
      potatoSwapRouter = ''0x881fb2f98c13d521009464e7d1cbf16e1b394e8e'',
      wokb = ''0xe538905cf8410324e03a5a23c1c177a474d59b2b'',
      subWalletPrivateKeys =
        [''0x1111111111111111111111111111111111111111111111111111111111111111'',
         ''0x2222222222222222222222222222222222222222222222222222222222222222'']\<rparr>"

text \<open>
  Sample amounts: 0.01 OKB and 3 USDT required per wallet, a deposit of 2.7 USDT, and a
  reference amount near 2.7 / 168.44 OKB.
\<close>

definition sampleQuantities :: quantities where
  "sampleQuantities =
     \<lparr>requiredOkb = Inr 10000000000000000,
      requiredUsdt = Inr 3000000,
      targetUsdt = Inr 2700000,
      referenceOkb = (\<lambda>usdtAmount. Inr 16029446687247685)\<rparr>"

definition alice :: wallet where
  "alice = \<lparr>privateKey = ''0x1111111111111111111111111111111111111111111111111111111111111111'',
            address = ''0x1111''\<rparr>"

definition bob :: wallet where
  "bob = \<lparr>privateKey = ''0x2222222222222222222222222222222222222222222222222222222222222222'',
          address = ''0x2222''\<rparr>"

text \<open>
  A ledger on which both sample wallets hold exactly the required amounts, no allowance
  has been given, the direct route answers and the pool is the USDT/WOKB pair.
\<close>

definition sampleLedger :: ledger where
  "sampleLedger =
     \<lparr>okbOf = (\<lambda>a. 10000000000000000),
      usdtOf = (\<lambda>a. 3000000),
      allowanceOf = (\<lambda>a. 0),
      usdtSupply = 1000000000000,
      approvalsTakeEffect = True,
      directOut = Some 16000000000000000,
      pairAt = ''0xPair'',
      reserves = (168440000000, 1000000000000000000000),
      pairToken0 = ''0x1E4A5963ABFD975D8C9021CE480B42188849D41D'',
      nonce = 0\<rparr>"

definition fresh :: "ledger \<Rightarrow> ledger world" where
  "fresh c = \<lparr>chain = c, calls = [], slept = []\<rparr>"

text \<open>Variations of the sample ledger.\<close>

definition shortOfUsdt :: ledger where
  "shortOfUsdt = sampleLedger\<lparr>usdtOf := (\<lambda>a. 2999999)\<rparr>"

definition deafToken :: ledger where
  "deafToken = sampleLedger\<lparr>approvalsTakeEffect := False\<rparr>"

text \<open>Ledgers without a usable pool: no direct route, and no pair or a thin one.\<close>

definition noPool :: ledger where
  "noPool = sampleLedger\<lparr>directOut := None, pairAt := ZeroAddress\<rparr>"

definition thinPool :: ledger where
  "thinPool = sampleLedger\<lparr>directOut := None, reserves := (16844000, 99999999999999999)\<rparr>"

definition routeDown :: ledger where
  "routeDown = sampleLedger\<lparr>directOut := None\<rparr>"





text \<open>A ledger on which the second sample wallet is one unit of USDT short.\<close>

definition bobShort :: ledger where
  "bobShort = sampleLedger\<lparr>usdtOf := (\<lambda>a. if a = ''0x2222'' then 2999999 else 3000000)\<rparr>"

section \<open>The retry wrapper: properties\<close>


lemma retryLoop_skip:
  assumes "\<And>j. j < k \<Longrightarrow> \<exists>e. fst (operation (beforeAttempt operation delay j s)) = Inl e \<and> isTransient e"
    and "i + int k < maxRetries"
  shows "retryLoop operation maxRetries delay i s =
         retryLoop operation maxRetries delay (i + int k) (beforeAttempt operation delay k s)"
  using assms
proof (induction k)
  case 0
  then show ?case by simp
next
  case (Suc k)
  let ?t = "beforeAttempt operation delay k s"
  from Suc.prems(1) [of k] obtain e where e: "fst (operation ?t) = Inl e" "isTransient e"
    by auto
  have "retryLoop operation maxRetries delay i s = retryLoop operation maxRetries delay (i + int k) ?t"
    using Suc by simp
  also have "\<dots> = retryLoop operation maxRetries delay (i + int k + 1) (sleepFor delay (snd (operation ?t)))"
    using e Suc.prems(2)
    by (subst retryLoop.simps) (simp add: split_beta)
  finally show ?case by (simp add: ac_simps)
qed

lemma slept_beforeAttempt:
  assumes "\<And>t. slept (snd (operation t)) = slept t"
  shows "slept (beforeAttempt operation delay k s) = slept s @ replicate k delay"
  using assms by (induction k) (simp_all add: sleepFor_def replicate_append_same)

text \<open>
  C4. When the operation fails with the transient signature on its first \<open>k\<close> invocations,
  \<open>k < maxRetries\<close>, and succeeds on the next one, \<open>retryOperation\<close> returns that success
  value, stops in the state that invocation left, and has awaited exactly \<open>k\<close> timers, each
  of the fixed \<open>delay\<close> (the operation itself is assumed to start no timer).
\<close>

theorem retry_transient_then_success:
  assumes "int k < maxRetries"
    and "\<And>j. j < k \<Longrightarrow> \<exists>e. fst (operation (beforeAttempt operation delay j s)) = Inl e \<and> isTransient e"
    and "fst (operation (beforeAttempt operation delay k s)) = Inr v"
    and "\<And>t. slept (snd (operation t)) = slept t"
  shows "fst (retryOperation operation maxRetries delay s) = Inr v
       \<and> snd (retryOperation operation maxRetries delay s) = snd (operation (beforeAttempt operation delay k s))
       \<and> slept (snd (retryOperation operation maxRetries delay s)) = slept s @ replicate k delay"
proof -
  let ?t = "beforeAttempt operation delay k s"
  have "retryOperation operation maxRetries delay s = retryLoop operation maxRetries delay (int k) ?t"
    unfolding retryOperation_def using retryLoop_skip [of k operation delay s 0 maxRetries] assms(1,2) by simp
  also have "\<dots> = (Inr v, snd (operation ?t))"
    using assms(1,3) by (subst retryLoop.simps) (simp add: split_beta split: sum.splits prod.splits)
  finally have r: "retryOperation operation maxRetries delay s = (Inr v, snd (operation ?t))" .
  show ?thesis
    using r assms(4) slept_beforeAttempt [OF assms(4)] by simp
qed

text \<open>
  C5. An error that does not match the transient signature is rethrown as it is on the
  first attempt: the state is the one the single invocation left, so no timer was awaited
  and the operation was not invoked again. When every one of the \<open>n + 1\<close> allowed attempts
  fails with the transient signature, the result is that of the last invocation: its error,
  unchanged.
\<close>

theorem retry_rethrows:
  "(0 < maxRetries \<longrightarrow> operation s = (Inl e, s') \<longrightarrow> \<not> isTransient e \<longrightarrow>
      retryOperation operation maxRetries delay s = (Inl e, s'))
   \<and> ((\<forall>j\<le>n. \<exists>e'. fst (operation (beforeAttempt operation delay j s)) = Inl e' \<and> isTransient e') \<longrightarrow>
      retryOperation operation (int (Suc n)) delay s = operation (beforeAttempt operation delay n s))"
proof (intro conjI impI)
  assume "0 < maxRetries" "operation s = (Inl e, s')" "\<not> isTransient e"
  then show "retryOperation operation maxRetries delay s = (Inl e, s')"
    unfolding retryOperation_def by (subst retryLoop.simps) simp
next
  let ?t = "beforeAttempt operation delay n s"
  assume all: "\<forall>j\<le>n. \<exists>e'. fst (operation (beforeAttempt operation delay j s)) = Inl e' \<and> isTransient e'"
  then obtain e' where e': "fst (operation ?t) = Inl e'" by blast
  have "retryOperation operation (int (Suc n)) delay s = retryLoop operation (int (Suc n)) delay (int n) ?t"
    unfolding retryOperation_def using retryLoop_skip [of n operation delay s 0 "int (Suc n)"] all by simp
  also have "\<dots> = operation ?t"
    using e' by (subst retryLoop.simps) (cases "operation ?t", simp)
  finally show "retryOperation operation (int (Suc n)) delay s = operation ?t" .
qed

theorem retry_transient_then_success_witness:
  "fst (retryOperation flaky 3 2000 idle) = Inr 7
   \<and> chain (snd (retryOperation flaky 3 2000 idle)) = 2
   \<and> slept (snd (retryOperation flaky 3 2000 idle)) = [2000, 2000]"
proof -
  have b: "beforeAttempt flaky 2000 2 idle = \<lparr>chain = 2, calls = [], slept = [2000, 2000]\<rparr>"
    by (simp add: numeral_2_eq_2 flaky_def idle_def sleepFor_def)
  have f: "\<And>j. j < 2 \<Longrightarrow> \<exists>e. fst (flaky (beforeAttempt flaky 2000 j idle)) = Inl e \<and> isTransient e"
    by (auto simp: less_Suc_eq numeral_2_eq_2 flaky_def idle_def sleepFor_def rateLimited_def)
  have q: "\<And>t. slept (snd (flaky t)) = slept t"
    by (simp add: flaky_def)
  have ok: "fst (flaky (beforeAttempt flaky 2000 2 idle)) = Inr 7"
    by (simp add: b flaky_def)
  have "int 2 < 3" by simp
  from retry_transient_then_success [of 2 3 flaky 2000 idle 7, OF this f ok q]
  show ?thesis
    unfolding b by (simp add: flaky_def idle_def)
qed

theorem retry_rethrows_witness:
  "retryOperation reverting 3 2000 idle
     = (Inl (ProviderError (Some ''CALL_EXCEPTION'') None), \<lparr>chain = 1, calls = [], slept = []\<rparr>)
   \<and> retryOperation congested 3 2000 idle
     = (Inl rateLimited, \<lparr>chain = 3, calls = [], slept = [2000, 2000]\<rparr>)"
proof -
  have a: "\<forall>j\<le>2. \<exists>e'. fst (congested (beforeAttempt congested 2000 j idle)) = Inl e' \<and> isTransient e'"
    by (simp add: congested_def rateLimited_def)
  have b: "beforeAttempt congested 2000 2 idle = \<lparr>chain = 2, calls = [], slept = [2000, 2000]\<rparr>"
    by (simp add: numeral_2_eq_2 congested_def idle_def sleepFor_def)
  have c: "int (Suc 2) = 3" by simp
  have r: "reverting idle = (Inl (ProviderError (Some ''CALL_EXCEPTION'') None), \<lparr>chain = 1, calls = [], slept = []\<rparr>)"
    by (simp add: reverting_def idle_def)
  have "retryOperation reverting 3 2000 idle
     = (Inl (ProviderError (Some ''CALL_EXCEPTION'') None), \<lparr>chain = 1, calls = [], slept = []\<rparr>)"
    using retry_rethrows [where maxRetries = 3 and operation = reverting and s = idle and delay = 2000] r
    by simp
  moreover have "retryOperation congested 3 2000 idle = congested (beforeAttempt congested 2000 2 idle)"
    using retry_rethrows [where operation = congested and s = idle and delay = 2000 and n = 2] a
    unfolding c by blast
  ultimately show ?thesis
    unfolding b by (simp add: congested_def)
qed

section \<open>Arithmetic of the slippage lines\<close>

lemma bigDiv_nonneg: "0 \<le> a \<Longrightarrow> 0 < b \<Longrightarrow> bigDiv a b = a div b"
  by (cases "a = 0") (simp_all add: bigDiv_def)

lemma toBigInt_of_int: "toBigInt (Num (of_int n)) = Inr n"
  by simp

lemma toBigInt_Inr_iff: "(\<exists>n. toBigInt (Num x) = Inr n) \<longleftrightarrow> x \<in> \<int>"
proof
  assume "\<exists>n. toBigInt (Num x) = Inr n"
  then have "of_int \<lfloor>x\<rfloor> = x" by (simp split: if_splits)
  then show "x \<in> \<int>" by (metis Ints_of_int)
next
  assume "x \<in> \<int>"
  then obtain n where "x = of_int n" by (auto elim: Ints_cases)
  then show "\<exists>n. toBigInt (Num x) = Inr n" by simp
qed

lemma Ints_100_minus: "((100::rat) - x \<in> \<int>) = (x \<in> \<int>)"
proof
  assume "100 - x \<in> \<int>"
  then have "100 - (100 - x) \<in> \<int>" by (intro Ints_diff) simp_all
  then show "x \<in> \<int>" by simp
next
  assume "x \<in> \<int>"
  then show "100 - x \<in> \<int>" by (intro Ints_diff) simp_all
qed


lemma computeMinimums_fraction:
  assumes "slippageTolerance cfg = Num x" "5 < x" "x \<notin> \<int>"
  shows "computeMinimums cfg usdtAmount okbAmount = Inl RangeError"
proof -
  have m: "numMinus (Num 100) (mathMax (Num x) (Num 5)) = Num (100 - x)" using assms(2) by (simp add: max_def)
  have "toBigInt (Num (100 - x)) = Inl RangeError"
    using assms(3) toBigInt_Inr_iff [of "100 - x"] Ints_100_minus [of x] by (simp split: if_splits)
  then show ?thesis unfolding computeMinimums_def Let_def assms(1) m by (simp del: toBigInt.simps)
qed

lemma computeMinimums_integer:
  assumes "slippageTolerance cfg = Num (of_int t)" "0 \<le> t" "t \<le> 50" "0 \<le> usdtAmount" "0 \<le> okbAmount"
  shows "computeMinimums cfg usdtAmount okbAmount =
         Inr (usdtAmount * (100 - max t 5) div 100, okbAmount * (100 - max t 5) div 100)"
proof -
  have "numMinus (Num 100) (mathMax (Num (of_int t)) (Num 5)) = Num (of_int (100 - max t 5))"
    by (simp add: max_def)
  moreover have "0 \<le> 100 - max t 5" using assms by simp
  ultimately show ?thesis using assms(4,5)
    unfolding computeMinimums_def Let_def assms(1)
    by (simp only: toBigInt_of_int sum.case) (simp add: bigDiv_nonneg)
qed

lemma computeMinimums_bounded:
  assumes "slippageTolerance cfg = Num (of_int t)" "0 \<le> t" "t \<le> 50" "0 \<le> usdtAmount" "0 \<le> okbAmount"
    and "computeMinimums cfg usdtAmount okbAmount = Inr (usdtAmountMin, okbAmountMin)"
  shows "usdtAmountMin \<le> usdtAmount \<and> okbAmountMin \<le> okbAmount"
proof -
  have m: "0 \<le> 100 - max t 5" "100 - max t 5 \<le> 100" using assms(2,3) by simp_all
  have "d * (100 - max t 5) div 100 \<le> d" if "0 \<le> d" for d :: int
  proof -
    have "d * (100 - max t 5) \<le> d * 100" using that m by (intro mult_left_mono) simp_all
    then have "d * (100 - max t 5) div 100 \<le> d * 100 div 100" by (rule zdiv_mono1) simp
    then show ?thesis by simp
  qed
  then show ?thesis using computeMinimums_integer [OF assms(1-5)] assms(4,5,6) by simp
qed

lemma seven_and_a_half_not_integer: "(15 / 2 :: rat) \<notin> \<int>"
proof
  assume "(15 / 2 :: rat) \<in> \<int>"
  then obtain n :: int where "15 / 2 = (of_int n :: rat)" by (auto elim: Ints_cases)
  then have "(of_int (2 * n) :: rat) = of_int 15" by simp
  then have "2 * n = 15" by (simp only: of_int_eq_iff)
  then show False by presburger
qed

text \<open>
  C3. The claim fails on the code for a tolerance that is not an integer: the configured
  tolerance 7.5 lies in [0,50] and passes \<open>validateConfig\<close> exactly as the tolerance 10 does,
  but the slippage lines do not return the minimum amounts \<open>\<lfloor>desired * 92.5 / 100\<rfloor>\<close>;
  \<open>BigInt(92.5)\<close> throws a RangeError, whatever the desired amounts are. For an integer
  tolerance the minimum amounts are those of the claim and do not exceed the desired
  amounts (\<open>computeMinimums_integer\<close>, \<open>computeMinimums_bounded\<close>).
\<close>

theorem slippage_fraction_throws:
  "validateConfig (cfg\<lparr>slippageTolerance := Num (15 / 2)\<rparr>)
     = validateConfig (cfg\<lparr>slippageTolerance := Num 10\<rparr>)
   \<and> computeMinimums (cfg\<lparr>slippageTolerance := Num (15 / 2)\<rparr>) usdtAmount okbAmount = Inl RangeError"
proof
  show "validateConfig (cfg\<lparr>slippageTolerance := Num (15 / 2)\<rparr>)
          = validateConfig (cfg\<lparr>slippageTolerance := Num 10\<rparr>)"
    by (simp add: validateConfig_def del: list_ex_Cons_iff includesStr.simps startsWith.simps)
  show "computeMinimums (cfg\<lparr>slippageTolerance := Num (15 / 2)\<rparr>) usdtAmount okbAmount = Inl RangeError"
    by (rule computeMinimums_fraction [of _ "15 / 2"]) (simp_all add: seven_and_a_half_not_integer)
qed

section \<open>Control flow\<close>

lemma await_view[simp]:
  "await (view f) g s = (case f (chain s) of Inl e \<Rightarrow> (Inl e, s) | Inr v \<Rightarrow> g v s)"
  by (simp add: await_def view_def split: sum.splits)

lemma await_resolve [simp]: "await (resolve v) g s = g v s"
  by (simp add: await_def resolve_def)

lemma await_throw [simp]: "await (throw e) g s = (Inl e, s)"
  by (simp add: await_def throw_def)

lemma await_settle [simp]:
  "await (settle r) g s = (case r of Inl e \<Rightarrow> (Inl e, s) | Inr v \<Rightarrow> g v s)"
  by (simp add: await_def settle_def split: sum.splits)

lemma await_transact [simp]:
  "await (transact c f) g s =
     (case f (chain s) of
        (Inl e, c') \<Rightarrow> (Inl e, s\<lparr>chain := c', calls := calls s @ [c]\<rparr>)
      | (Inr v, c') \<Rightarrow> g v (s\<lparr>chain := c', calls := calls s @ [c]\<rparr>))"
  by (simp add: await_def transact_def split: sum.splits prod.splits)

lemma await_assoc [simp]: "await (await m f) g = await m (\<lambda>x. await (f x) g)"
  by (rule ext) (simp add: await_def split: sum.splits prod.splits)

lemma await_if [simp]: "await (if b then m else m') g = (if b then await m g else await m' g)"
  by simp

lemma retryOperation_success:
  "0 < maxRetries \<Longrightarrow> operation s = (Inr v, s') \<Longrightarrow> retryOperation operation maxRetries delay s = (Inr v, s')"
  unfolding retryOperation_def by (subst retryLoop.simps) simp

lemma retryOperation_fatal:
  "0 < maxRetries \<Longrightarrow> operation s = (Inl e, s') \<Longrightarrow> \<not> isTransient e \<Longrightarrow>
   retryOperation operation maxRetries delay s = (Inl e, s')"
  unfolding retryOperation_def by (subst retryLoop.simps) simp

section \<open>Authorization: properties\<close>

text \<open>
  C8. Let the allowance and the total supply be read as non-negative amounts, half of the
  total supply being \<open>totalSupply / 2n\<close> as the code computes it (rounded down). If the
  allowance is at least that half, \<open>approveTokenForSwap\<close> returns null and leaves the whole
  state as it was: no call is made. Otherwise, with a non-zero allowance, it approves zero,
  waits for that transaction, approves the total supply, waits for that transaction and
  returns its hash; with a zero allowance it only approves the total supply and waits.
\<close>

theorem approve_skips_or_resets:
  assumes "erc20_allowance E tokenAddress (address wallet) spender (chain s) = Inr currentAllowance"
    and "erc20_totalSupply E tokenAddress (chain s) = Inr totalSupply"
    and "0 \<le> currentAllowance" and "0 \<le> totalSupply"
  shows "(totalSupply div 2 \<le> currentAllowance \<longrightarrow>
            approveTokenForSwap E wallet tokenAddress spender amount s = (Inr None, s))
       \<and> (currentAllowance < totalSupply div 2 \<longrightarrow> currentAllowance \<noteq> 0 \<longrightarrow>
            erc20_approve E tokenAddress (address wallet) spender 0 (chain s) = (Inr resetTx, c1) \<longrightarrow>
            tx_wait E resetTx c1 = (Inr (), c2) \<longrightarrow>
            erc20_approve E tokenAddress (address wallet) spender totalSupply c2 = (Inr tx, c3) \<longrightarrow>
            tx_wait E tx c3 = (Inr (), c4) \<longrightarrow>
            approveTokenForSwap E wallet tokenAddress spender amount s =
              (Inr (Some tx),
               s\<lparr>chain := c4,
                 calls := calls s @ [Approve tokenAddress (address wallet) spender 0, WaitFor resetTx,
                                     Approve tokenAddress (address wallet) spender totalSupply, WaitFor tx]\<rparr>))
       \<and> (currentAllowance < totalSupply div 2 \<longrightarrow> currentAllowance = 0 \<longrightarrow>
            erc20_approve E tokenAddress (address wallet) spender totalSupply (chain s) = (Inr tx, c1) \<longrightarrow>
            tx_wait E tx c1 = (Inr (), c2) \<longrightarrow>
            approveTokenForSwap E wallet tokenAddress spender amount s =
              (Inr (Some tx),
               s\<lparr>chain := c2,
                 calls := calls s @ [Approve tokenAddress (address wallet) spender totalSupply, WaitFor tx]\<rparr>))"
proof -
  have half: "bigDiv totalSupply 2 = totalSupply div 2"
    using assms(4) by (simp add: bigDiv_nonneg)
  show ?thesis
    unfolding approveTokenForSwap_def approveAttempt_def
    by (intro conjI impI; rule retryOperation_success)
       (use assms half in \<open>simp_all add: resolve_def transact_def\<close>)
qed

theorem approve_skips_or_resets_witness:
  "approveTokenForSwap testnet alice (usdt sampleConfig) (potatoSwapRouter sampleConfig) 2700000
     (fresh (sampleLedger\<lparr>allowanceOf := (\<lambda>a. 500000000000)\<rparr>))
     = (Inr None, fresh (sampleLedger\<lparr>allowanceOf := (\<lambda>a. 500000000000)\<rparr>))
   \<and> approveTokenForSwap testnet alice (usdt sampleConfig) (potatoSwapRouter sampleConfig) 2700000
     (fresh (sampleLedger\<lparr>allowanceOf := (\<lambda>a. 5)\<rparr>))
     = (Inr (Some (txHashOf 1)),
        \<lparr>chain = sampleLedger\<lparr>allowanceOf := (\<lambda>a. 5)(''0x1111'' := 0, ''0x1111'' := 1000000000000), nonce := 2\<rparr>,
         calls = [Approve (usdt sampleConfig) ''0x1111'' (potatoSwapRouter sampleConfig) 0, WaitFor (txHashOf 0),
                  Approve (usdt sampleConfig) ''0x1111'' (potatoSwapRouter sampleConfig) 1000000000000, WaitFor (txHashOf 1)],
         slept = []\<rparr>)
   \<and> approveTokenForSwap testnet alice (usdt sampleConfig) (potatoSwapRouter sampleConfig) 2700000
     (fresh sampleLedger)
     = (Inr (Some (txHashOf 0)),
        \<lparr>chain = sampleLedger\<lparr>allowanceOf := (\<lambda>a. 0)(''0x1111'' := 1000000000000), nonce := 1\<rparr>,
         calls = [Approve (usdt sampleConfig) ''0x1111'' (potatoSwapRouter sampleConfig) 1000000000000, WaitFor (txHashOf 0)],
         slept = []\<rparr>)"
proof -
  let ?u = "usdt sampleConfig" and ?r = "potatoSwapRouter sampleConfig"
  let ?L1 = "sampleLedger\<lparr>allowanceOf := (\<lambda>a. 500000000000)\<rparr>"
  let ?L2 = "sampleLedger\<lparr>allowanceOf := (\<lambda>a. 5)\<rparr>"
  have 1: "approveTokenForSwap testnet alice ?u ?r 2700000 (fresh ?L1) = (Inr None, fresh ?L1)"
    using approve_skips_or_resets [where E = testnet and wallet = alice and tokenAddress = ?u
        and spender = ?r and s = "fresh ?L1" and currentAllowance = 500000000000
        and totalSupply = 1000000000000 and amount = 2700000]
    by (simp add: testnet_def fresh_def sampleLedger_def)
  have 2: "approveTokenForSwap testnet alice ?u ?r 2700000 (fresh ?L2)
      = (Inr (Some (txHashOf 1)),
         (fresh ?L2)\<lparr>chain := ?L2\<lparr>allowanceOf := (\<lambda>a. 5)(''0x1111'' := 0, ''0x1111'' := 1000000000000), nonce := 2\<rparr>,
           calls := calls (fresh ?L2) @ [Approve ?u (address alice) ?r 0, WaitFor (txHashOf 0),
                    Approve ?u (address alice) ?r 1000000000000, WaitFor (txHashOf 1)]\<rparr>)"
    using approve_skips_or_resets [where E = testnet and wallet = alice and tokenAddress = ?u
        and spender = ?r and s = "fresh ?L2" and currentAllowance = 5
        and totalSupply = 1000000000000 and amount = 2700000
        and resetTx = "txHashOf 0" and tx = "txHashOf 1"
        and ?c1.0 = "?L2\<lparr>allowanceOf := (\<lambda>a. 5)(''0x1111'' := 0), nonce := 1\<rparr>"
        and ?c2.0 = "?L2\<lparr>allowanceOf := (\<lambda>a. 5)(''0x1111'' := 0), nonce := 1\<rparr>"
        and ?c3.0 = "?L2\<lparr>allowanceOf := (\<lambda>a. 5)(''0x1111'' := 0, ''0x1111'' := 1000000000000), nonce := 2\<rparr>"
        and ?c4.0 = "?L2\<lparr>allowanceOf := (\<lambda>a. 5)(''0x1111'' := 0, ''0x1111'' := 1000000000000), nonce := 2\<rparr>"]
    by (simp add: testnet_def fresh_def sampleLedger_def alice_def)
  have 3: "approveTokenForSwap testnet alice ?u ?r 2700000 (fresh sampleLedger)
      = (Inr (Some (txHashOf 0)),
         (fresh sampleLedger)\<lparr>chain := sampleLedger\<lparr>allowanceOf := (\<lambda>a. 0)(''0x1111'' := 1000000000000), nonce := 1\<rparr>,
           calls := calls (fresh sampleLedger) @ [Approve ?u (address alice) ?r 1000000000000, WaitFor (txHashOf 0)]\<rparr>)"
    using approve_skips_or_resets [where E = testnet and wallet = alice and tokenAddress = ?u
        and spender = ?r and s = "fresh sampleLedger" and currentAllowance = 0
        and totalSupply = 1000000000000 and amount = 2700000 and tx = "txHashOf 0"
        and ?c1.0 = "sampleLedger\<lparr>allowanceOf := (\<lambda>a. 0)(''0x1111'' := 1000000000000), nonce := 1\<rparr>"
        and ?c2.0 = "sampleLedger\<lparr>allowanceOf := (\<lambda>a. 0)(''0x1111'' := 1000000000000), nonce := 1\<rparr>"]
    by (simp add: testnet_def fresh_def sampleLedger_def alice_def)
  show ?thesis
    using 1 2 3 by (simp add: fresh_def alice_def)
qed

section \<open>The deposit: properties\<close>

lemma depositCalls_sleepFor [simp]: "depositCalls (sleepFor d s) = depositCalls s"
  by (simp add: depositCalls_def sleepFor_def)

lemma retryLoop_depositCalls:
  "(\<And>t. depositCalls (snd (operation t)) = depositCalls t) \<Longrightarrow>
   depositCalls (snd (retryLoop operation maxRetries delay i s)) = depositCalls s"
proof (induction operation maxRetries delay i s rule: retryLoop.induct)
  case (1 operation maxRetries delay i s)
  obtain r s' where p: "operation s = (r, s')" by (cases "operation s")
  have s': "depositCalls s' = depositCalls s" using "1.prems" [of s] p by simp
  show ?case
  proof (cases "i < maxRetries")
    case False
    then show ?thesis by (subst retryLoop.simps) simp
  next
    case True
    show ?thesis
    proof (cases r)
      case (Inr v)
      then show ?thesis using True p s' by (subst retryLoop.simps) simp
    next
      case (Inl e)
      show ?thesis
      proof (cases "isTransient e \<and> i \<noteq> maxRetries - 1")
        case False
        then show ?thesis using True p s' Inl by (subst retryLoop.simps) auto
      next
        case again: True
        have "depositCalls (snd (retryLoop operation maxRetries delay (i + 1) (sleepFor delay s'))) = depositCalls (sleepFor delay s')"
          using "1.IH" [OF True p [symmetric] Inl refl] again "1.prems" by simp
        then show ?thesis using True p s' Inl again by (subst retryLoop.simps) simp
      qed
    qed
  qed
qed



lemma approveAttempt_depositCalls:
  "depositCalls (snd (approveAttempt E wallet tokenAddress spender amount t)) = depositCalls t"
  by (auto simp: approveAttempt_def resolve_def transact_def depositCalls_def
           split: sum.splits prod.splits)

lemma approveTokenForSwap_depositCalls:
  "depositCalls (snd (approveTokenForSwap E wallet tokenAddress spender amount s)) = depositCalls s"
  unfolding approveTokenForSwap_def retryOperation_def
  by (rule retryLoop_depositCalls) (rule approveAttempt_depositCalls)

text \<open>
  C9. After its authorization step, and before anything else is sent, \<open>addLiquidityETH\<close>
  reads the live OKB balance, USDT balance, USDT allowance and USDT total supply. If the
  OKB balance is below \<open>okbAmount\<close>, or else the USDT balance is below \<open>usdtAmount\<close>, or else
  the allowance is below both \<open>usdtAmount\<close> and half of the total supply (\<open>totalSupply / 2n\<close>,
  rounded down), it throws an error carrying the required and the actual amount, in the
  state the authorization step left; that step made no deposit call, so none is submitted.
  When all three checks pass and the minimum amounts can be computed, the deposit call is
  the next call made.
\<close>

theorem deposit_rechecks:
  assumes approved: "approveTokenForSwap E wallet usdtAddress routerAddress usdtAmount s = (Inr approval, s1)"
    and okb: "provider_getBalance E (address wallet) (chain s1) = Inr okbBalance"
    and usdt: "erc20_balanceOf E usdtAddress (address wallet) (chain s1) = Inr usdtBalance"
    and allow: "erc20_allowance E usdtAddress (address wallet) routerAddress (chain s1) = Inr usdtAllowance"
    and total: "erc20_totalSupply E usdtAddress (chain s1) = Inr usdtTotalSupply" "0 \<le> usdtTotalSupply"
  shows "(okbBalance < okbAmount \<longrightarrow>
            addLiquidityETH E cfg wallet routerAddress usdtAddress usdtAmount okbAmount s
              = (Inl (OkbShort okbAmount okbBalance), s1))
       \<and> (okbAmount \<le> okbBalance \<longrightarrow> usdtBalance < usdtAmount \<longrightarrow>
            addLiquidityETH E cfg wallet routerAddress usdtAddress usdtAmount okbAmount s
              = (Inl (UsdtShort usdtAmount usdtBalance), s1))
       \<and> (okbAmount \<le> okbBalance \<longrightarrow> usdtAmount \<le> usdtBalance \<longrightarrow>
            usdtAllowance < usdtAmount \<longrightarrow> usdtAllowance < usdtTotalSupply div 2 \<longrightarrow>
            addLiquidityETH E cfg wallet routerAddress usdtAddress usdtAmount okbAmount s
              = (Inl (AllowanceShort usdtAmount usdtAllowance), s1))
       \<and> depositCalls s1 = depositCalls s
       \<and> (okbAmount \<le> okbBalance \<longrightarrow> usdtAmount \<le> usdtBalance \<longrightarrow>
            (usdtAmount \<le> usdtAllowance \<or> usdtTotalSupply div 2 \<le> usdtAllowance) \<longrightarrow>
            computeMinimums cfg usdtAmount okbAmount = Inr (usdtAmountMin, okbAmountMin) \<longrightarrow>
            router_addLiquidityETH E routerAddress (address wallet)
               \<lparr>dep_token = usdtAddress, dep_amountTokenDesired = usdtAmount,
                dep_amountTokenMin = usdtAmountMin, dep_amountETHMin = okbAmountMin,
                dep_to = address wallet, dep_deadline = clock_now E (chain s1) div 1000 + 600,
                dep_value = okbAmount\<rparr> (chain s1) = (Inr tx, c2) \<longrightarrow>
            tx_wait E tx c2 = (Inr (), c3) \<longrightarrow>
            addLiquidityETH E cfg wallet routerAddress usdtAddress usdtAmount okbAmount s
              = (Inr tx,
                 s1\<lparr>chain := c3,
                    calls := calls s1 @
                      [AddLiquidityETH routerAddress (address wallet)
                         \<lparr>dep_token = usdtAddress, dep_amountTokenDesired = usdtAmount,
                          dep_amountTokenMin = usdtAmountMin, dep_amountETHMin = okbAmountMin,
                          dep_to = address wallet, dep_deadline = clock_now E (chain s1) div 1000 + 600,
                          dep_value = okbAmount\<rparr>,
                       WaitFor tx]\<rparr>))"
proof -
  have half: "bigDiv usdtTotalSupply 2 = usdtTotalSupply div 2"
    using total(2) by (simp add: bigDiv_nonneg)
  have kept: "depositCalls s1 = depositCalls s"
    using approveTokenForSwap_depositCalls [of E wallet usdtAddress routerAddress usdtAmount s] approved
    by simp
  have start: "\<And>f. await (approveTokenForSwap E wallet usdtAddress routerAddress usdtAmount) f s = f approval s1"
    using approved by (simp add: await_def)
  show ?thesis
  proof (intro conjI impI)
    show "depositCalls s1 = depositCalls s" by (rule kept)
  next
    assume "okbBalance < okbAmount"
    then show "addLiquidityETH E cfg wallet routerAddress usdtAddress usdtAmount okbAmount s
                 = (Inl (OkbShort okbAmount okbBalance), s1)"
      unfolding addLiquidityETH_def
      by (intro retryOperation_fatal) (simp_all add: depositAttempt_def start okb usdt allow throw_def)
  next
    assume "okbAmount \<le> okbBalance" "usdtBalance < usdtAmount"
    then show "addLiquidityETH E cfg wallet routerAddress usdtAddress usdtAmount okbAmount s
                 = (Inl (UsdtShort usdtAmount usdtBalance), s1)"
      unfolding addLiquidityETH_def
      by (intro retryOperation_fatal) (simp_all add: depositAttempt_def start okb usdt allow throw_def)
  next
    assume "okbAmount \<le> okbBalance" "usdtAmount \<le> usdtBalance"
      "usdtAllowance < usdtAmount" "usdtAllowance < usdtTotalSupply div 2"
    then show "addLiquidityETH E cfg wallet routerAddress usdtAddress usdtAmount okbAmount s
                 = (Inl (AllowanceShort usdtAmount usdtAllowance), s1)"
      unfolding addLiquidityETH_def
      by (intro retryOperation_fatal)
         (simp_all add: depositAttempt_def start okb usdt allow total(1) half throw_def)
  next
    assume "okbAmount \<le> okbBalance" "usdtAmount \<le> usdtBalance"
      "usdtAmount \<le> usdtAllowance \<or> usdtTotalSupply div 2 \<le> usdtAllowance"
      "computeMinimums cfg usdtAmount okbAmount = Inr (usdtAmountMin, okbAmountMin)"
      "router_addLiquidityETH E routerAddress (address wallet)
               \<lparr>dep_token = usdtAddress, dep_amountTokenDesired = usdtAmount,
                dep_amountTokenMin = usdtAmountMin, dep_amountETHMin = okbAmountMin,
                dep_to = address wallet, dep_deadline = clock_now E (chain s1) div 1000 + 600,
                dep_value = okbAmount\<rparr> (chain s1) = (Inr tx, c2)"
      "tx_wait E tx c2 = (Inr (), c3)"
    then show "addLiquidityETH E cfg wallet routerAddress usdtAddress usdtAmount okbAmount s
              = (Inr tx,
                 s1\<lparr>chain := c3,
                    calls := calls s1 @
                      [AddLiquidityETH routerAddress (address wallet)
                         \<lparr>dep_token = usdtAddress, dep_amountTokenDesired = usdtAmount,
                          dep_amountTokenMin = usdtAmountMin, dep_amountETHMin = okbAmountMin,
                          dep_to = address wallet, dep_deadline = clock_now E (chain s1) div 1000 + 600,
                          dep_value = okbAmount\<rparr>,
                       WaitFor tx]\<rparr>)"
      unfolding addLiquidityETH_def
      by (intro retryOperation_success)
         (auto simp: depositAttempt_def start okb usdt allow total(1) half resolve_def)
  qed
qed

lemma testnet_first_approval:
  assumes "allowanceOf L (address w) = 0" "2 \<le> usdtSupply L"
  shows "approveTokenForSwap testnet w tok sp amt (fresh L) =
         (Inr (Some (txHashOf (nonce L))),
          \<lparr>chain = L\<lparr>allowanceOf := (if approvalsTakeEffect L
                                     then (allowanceOf L)(address w := usdtSupply L)
                                     else allowanceOf L),
                      nonce := Suc (nonce L)\<rparr>,
           calls = [Approve tok (address w) sp (usdtSupply L), WaitFor (txHashOf (nonce L))],
           slept = []\<rparr>)"
proof -
  have "0 < usdtSupply L div 2" using assms(2) by simp
  then have "\<not> 0 \<ge> bigDiv (usdtSupply L) 2" using assms(2) by (simp add: bigDiv_nonneg)
  then show ?thesis
    unfolding approveTokenForSwap_def
    by (intro retryOperation_success)
       (simp_all add: approveAttempt_def testnet_def fresh_def assms(1) resolve_def transact_def)
qed

theorem deposit_rechecks_witness:
  "addLiquidityETH testnet sampleConfig alice ''0xRouter'' ''0xUsdt'' 3000000 10000000000000000 (fresh shortOfUsdt)
     = (Inl (UsdtShort 3000000 2999999),
        \<lparr>chain = shortOfUsdt\<lparr>allowanceOf := (\<lambda>a. 0)(''0x1111'' := 1000000000000), nonce := 1\<rparr>,
         calls = [Approve ''0xUsdt'' ''0x1111'' ''0xRouter'' 1000000000000, WaitFor (txHashOf 0)],
         slept = []\<rparr>)
   \<and> addLiquidityETH testnet sampleConfig alice ''0xRouter'' ''0xUsdt'' 3000000 10000000000000000 (fresh deafToken)
     = (Inl (AllowanceShort 3000000 0),
        \<lparr>chain = deafToken\<lparr>nonce := 1\<rparr>,
         calls = [Approve ''0xUsdt'' ''0x1111'' ''0xRouter'' 1000000000000, WaitFor (txHashOf 0)],
         slept = []\<rparr>)
   \<and> addLiquidityETH testnet sampleConfig alice ''0xRouter'' ''0xUsdt'' 3000000 10000000000000000 (fresh sampleLedger)
     = (Inr (txHashOf 1),
        \<lparr>chain = sampleLedger\<lparr>allowanceOf := (\<lambda>a. 0)(''0x1111'' := 1000000000000), nonce := 2\<rparr>,
         calls = [Approve ''0xUsdt'' ''0x1111'' ''0xRouter'' 1000000000000, WaitFor (txHashOf 0),
                  AddLiquidityETH ''0xRouter'' ''0x1111''
                    \<lparr>dep_token = ''0xUsdt'', dep_amountTokenDesired = 3000000,
                     dep_amountTokenMin = 2700000, dep_amountETHMin = 9000000000000000,
                     dep_to = ''0x1111'', dep_deadline = 1700000600,
                     dep_value = 10000000000000000\<rparr>,
                  WaitFor (txHashOf 1)],
         slept = []\<rparr>)"
proof -
  let ?s1 = "\<lparr>chain = shortOfUsdt\<lparr>allowanceOf := (\<lambda>a. 0)(''0x1111'' := 1000000000000), nonce := 1\<rparr>,
         calls = [Approve ''0xUsdt'' ''0x1111'' ''0xRouter'' 1000000000000, WaitFor (txHashOf 0)],
         slept = []\<rparr>"
  let ?s2 = "\<lparr>chain = deafToken\<lparr>nonce := 1\<rparr>,
         calls = [Approve ''0xUsdt'' ''0x1111'' ''0xRouter'' 1000000000000, WaitFor (txHashOf 0)],
         slept = []\<rparr>"
  let ?s3 = "\<lparr>chain = sampleLedger\<lparr>allowanceOf := (\<lambda>a. 0)(''0x1111'' := 1000000000000), nonce := 1\<rparr>,
         calls = [Approve ''0xUsdt'' ''0x1111'' ''0xRouter'' 1000000000000, WaitFor (txHashOf 0)],
         slept = []\<rparr>"
  have a1: "approveTokenForSwap testnet alice ''0xUsdt'' ''0xRouter'' 3000000 (fresh shortOfUsdt)
            = (Inr (Some (txHashOf 0)), ?s1)"
    using testnet_first_approval [of shortOfUsdt alice "''0xUsdt''" "''0xRouter''" 3000000]
    by (simp add: shortOfUsdt_def sampleLedger_def alice_def)
  have a2: "approveTokenForSwap testnet alice ''0xUsdt'' ''0xRouter'' 3000000 (fresh deafToken)
            = (Inr (Some (txHashOf 0)), ?s2)"
    using testnet_first_approval [of deafToken alice "''0xUsdt''" "''0xRouter''" 3000000]
    by (simp add: deafToken_def sampleLedger_def alice_def)
  have a3: "approveTokenForSwap testnet alice ''0xUsdt'' ''0xRouter'' 3000000 (fresh sampleLedger)
            = (Inr (Some (txHashOf 0)), ?s3)"
    using testnet_first_approval [of sampleLedger alice "''0xUsdt''" "''0xRouter''" 3000000]
    by (simp add: sampleLedger_def alice_def)
  have 1: "addLiquidityETH testnet sampleConfig alice ''0xRouter'' ''0xUsdt'' 3000000 10000000000000000 (fresh shortOfUsdt)
     = (Inl (UsdtShort 3000000 2999999), ?s1)"
    using deposit_rechecks [OF a1, where okbBalance = 10000000000000000 and usdtBalance = 2999999
        and usdtAllowance = 1000000000000 and usdtTotalSupply = 1000000000000
        and okbAmount = 10000000000000000 and cfg = sampleConfig]
    by (simp add: testnet_def shortOfUsdt_def sampleLedger_def alice_def)
  have 2: "addLiquidityETH testnet sampleConfig alice ''0xRouter'' ''0xUsdt'' 3000000 10000000000000000 (fresh deafToken)
     = (Inl (AllowanceShort 3000000 0), ?s2)"
    using deposit_rechecks [OF a2, where okbBalance = 10000000000000000 and usdtBalance = 3000000
        and usdtAllowance = 0 and usdtTotalSupply = 1000000000000
        and okbAmount = 10000000000000000 and cfg = sampleConfig]
    by (simp add: testnet_def deafToken_def sampleLedger_def alice_def)
  have m: "computeMinimums sampleConfig 3000000 10000000000000000 = Inr (2700000, 9000000000000000)"
    using computeMinimums_integer [of sampleConfig 10 3000000 10000000000000000]
    by (simp add: sampleConfig_def)
  have 3: "addLiquidityETH testnet sampleConfig alice ''0xRouter'' ''0xUsdt'' 3000000 10000000000000000 (fresh sampleLedger)
     = (Inr (txHashOf 1),
        ?s3\<lparr>chain := sampleLedger\<lparr>allowanceOf := (\<lambda>a. 0)(''0x1111'' := 1000000000000), nonce := 2\<rparr>,
            calls := calls ?s3 @
              [AddLiquidityETH ''0xRouter'' (address alice)
                 \<lparr>dep_token = ''0xUsdt'', dep_amountTokenDesired = 3000000,
                  dep_amountTokenMin = 2700000, dep_amountETHMin = 9000000000000000,
                  dep_to = address alice, dep_deadline = clock_now testnet (chain ?s3) div 1000 + 600,
                  dep_value = 10000000000000000\<rparr>,
               WaitFor (txHashOf 1)]\<rparr>)"
    using deposit_rechecks [OF a3, where okbBalance = 10000000000000000 and usdtBalance = 3000000
        and usdtAllowance = 1000000000000 and usdtTotalSupply = 1000000000000
        and okbAmount = 10000000000000000 and cfg = sampleConfig
        and usdtAmountMin = 2700000 and okbAmountMin = 9000000000000000 and tx = "txHashOf 1"
        and ?c2.0 = "sampleLedger\<lparr>allowanceOf := (\<lambda>a. 0)(''0x1111'' := 1000000000000), nonce := 2\<rparr>"
        and ?c3.0 = "sampleLedger\<lparr>allowanceOf := (\<lambda>a. 0)(''0x1111'' := 1000000000000), nonce := 2\<rparr>"] m
    by (simp add: testnet_def sampleLedger_def alice_def)
  show ?thesis using 1 2 3 by (simp add: testnet_def alice_def)
qed

section \<open>The price oracle: properties\<close>

lemma directRoute_eq:
  "directRoute E cfg usdtAmount s =
     (Inr (case router_getAmountsOut E (potatoSwapRouter cfg) usdtAmount [usdt cfg, wokb cfg] (chain s) of
             Inl e \<Rightarrow> None
           | Inr amounts \<Rightarrow> if 1 < length amounts then Some (amounts ! 1) else None), s)"
  by (simp add: directRoute_def tryCatch_def resolve_def throw_def split: sum.splits)

lemma reserveQuote_state: "snd (reserveQuote E cfg usdtAmount s) = s"
  by (simp add: reserveQuote_def resolve_def split: sum.splits prod.splits)

lemma getOkbAmountFromRouter_tiers:
  "getOkbAmountFromRouter E cfg wallet usdtAmount s =
     (Inr (case fst (directRoute E cfg usdtAmount s) of
             Inr (Some okbAmount) \<Rightarrow> Some okbAmount
           | _ \<Rightarrow> (case fst (reserveQuote E cfg usdtAmount s) of
                     Inr quoted \<Rightarrow> quoted
                   | Inl e \<Rightarrow> None)), s)"
proof -
  obtain r where r: "reserveQuote E cfg usdtAmount s = (r, s)"
    using reserveQuote_state [of E cfg usdtAmount s] by (cases "reserveQuote E cfg usdtAmount s") simp
  show ?thesis
    by (simp add: getOkbAmountFromRouter_def tryCatch_def await_def directRoute_eq r resolve_def
             split: sum.splits option.splits)
qed


lemma reserveQuote_no_pair:
  assumes "router_factory E (potatoSwapRouter cfg) (chain s) = Inr factoryAddress"
    and "factory_getPair E factoryAddress (usdt cfg) (wokb cfg) (chain s) = Inr ZeroAddress"
  shows "reserveQuote E cfg usdtAmount s = (Inr None, s)"
  using assms by (simp add: reserveQuote_def resolve_def)

lemma reserveQuote_pair:
  assumes "router_factory E (potatoSwapRouter cfg) (chain s) = Inr factoryAddress"
    and "factory_getPair E factoryAddress (usdt cfg) (wokb cfg) (chain s) = Inr pairAddress"
    and "pairAddress \<noteq> ZeroAddress"
    and "pair_getReserves E pairAddress (chain s) = Inr (reserve0, reserve1)"
    and "pair_token0 E pairAddress (chain s) = Inr token0"
    and "(usdtReserve, wokbReserve) =
           (if toLowerCase token0 = toLowerCase (usdt cfg) then (reserve0, reserve1) else (reserve1, reserve0))"
  shows "reserveQuote E cfg usdtAmount s =
           (if wokbReserve < minWokbReserve then (Inr None, s)
            else (case router_quote E (potatoSwapRouter cfg) usdtAmount usdtReserve wokbReserve (chain s) of
                    Inl e \<Rightarrow> (Inl e, s)
                  | Inr okbAmount \<Rightarrow> (Inr (Some okbAmount), s)))"
proof (cases "toLowerCase token0 = toLowerCase (usdt cfg)")
  case True
  then have "usdtReserve = reserve0" "wokbReserve = reserve1" using assms(6) by simp_all
  then show ?thesis using assms(1-5) True
    by (simp add: reserveQuote_def resolve_def split: sum.splits)
next
  case False
  then have "usdtReserve = reserve1" "wokbReserve = reserve0" using assms(6) by simp_all
  then show ?thesis using assms(1-5) False
    by (simp add: reserveQuote_def resolve_def split: sum.splits)
qed

text \<open>
  C2. Let the amount be positive, the direct route fail and the factory answer with a pair
  address. If that address is the zero address the quote is null. Otherwise, with the
  pool's reserves and \<open>token0\<close> read, the reserves are assigned by comparing \<open>token0\<close> with
  the configured USDT address without regard to case (\<open>reserve0\<close> is the USDT side on a
  match, \<open>reserve1\<close> otherwise); the quote is null if the WOKB side is below 0.1 WOKB, and
  otherwise, the router's \<open>quote\<close> being the constant-product formula and the USDT reserve
  positive, it is \<open>\<lfloor>usdtAmount * wokbReserve / usdtReserve\<rfloor>\<close>. The state is left unchanged.
\<close>

theorem reserve_derived_quote:
  assumes positive: "0 < usdtAmount"
    and direct: "router_getAmountsOut E (potatoSwapRouter cfg) usdtAmount [usdt cfg, wokb cfg] (chain s) = Inl e"
    and factory: "router_factory E (potatoSwapRouter cfg) (chain s) = Inr factoryAddress"
    and pair: "factory_getPair E factoryAddress (usdt cfg) (wokb cfg) (chain s) = Inr pairAddress"
  shows "(pairAddress = ZeroAddress \<longrightarrow>
            getOkbAmountFromRouter E cfg wallet usdtAmount s = (Inr None, s))
       \<and> (pairAddress \<noteq> ZeroAddress \<longrightarrow>
            pair_getReserves E pairAddress (chain s) = Inr (reserve0, reserve1) \<longrightarrow>
            pair_token0 E pairAddress (chain s) = Inr token0 \<longrightarrow>
            (usdtReserve, wokbReserve) =
              (if toLowerCase token0 = toLowerCase (usdt cfg)
               then (reserve0, reserve1) else (reserve1, reserve0)) \<longrightarrow>
            (wokbReserve < minWokbReserve \<longrightarrow>
               getOkbAmountFromRouter E cfg wallet usdtAmount s = (Inr None, s))
          \<and> (minWokbReserve \<le> wokbReserve \<longrightarrow> 0 < usdtReserve \<longrightarrow>
               router_quote E (potatoSwapRouter cfg) usdtAmount usdtReserve wokbReserve (chain s)
                 = Inr (quoteFormula usdtAmount usdtReserve wokbReserve) \<longrightarrow>
               getOkbAmountFromRouter E cfg wallet usdtAmount s
                 = (Inr (Some \<lfloor>(of_int usdtAmount * of_int wokbReserve / of_int usdtReserve :: rat)\<rfloor>), s)))"
proof -
  have d: "fst (directRoute E cfg usdtAmount s) = Inr None"
    by (simp add: directRoute_eq direct)
  have fl: "\<lfloor>(of_int usdtAmount * of_int wokbReserve / of_int usdtReserve :: rat)\<rfloor>
            = quoteFormula usdtAmount usdtReserve wokbReserve"
    unfolding quoteFormula_def
    by (metis floor_divide_of_int_eq of_int_mult)
  show ?thesis
  proof (intro conjI impI)
    assume "pairAddress = ZeroAddress"
    then show "getOkbAmountFromRouter E cfg wallet usdtAmount s = (Inr None, s)"
      using reserveQuote_no_pair [OF factory, of usdtAmount] pair
      by (simp add: getOkbAmountFromRouter_tiers d)
  next
    assume "pairAddress \<noteq> ZeroAddress"
      "pair_getReserves E pairAddress (chain s) = Inr (reserve0, reserve1)"
      "pair_token0 E pairAddress (chain s) = Inr token0"
      "(usdtReserve, wokbReserve) =
              (if toLowerCase token0 = toLowerCase (usdt cfg)
               then (reserve0, reserve1) else (reserve1, reserve0))"
    note rq = reserveQuote_pair [OF factory pair this, of usdtAmount]
    {
      assume "wokbReserve < minWokbReserve"
      then show "getOkbAmountFromRouter E cfg wallet usdtAmount s = (Inr None, s)"
        by (simp add: getOkbAmountFromRouter_tiers d rq)
    next
      assume "minWokbReserve \<le> wokbReserve" "0 < usdtReserve"
        "router_quote E (potatoSwapRouter cfg) usdtAmount usdtReserve wokbReserve (chain s)
                 = Inr (quoteFormula usdtAmount usdtReserve wokbReserve)"
      then show "getOkbAmountFromRouter E cfg wallet usdtAmount s
                 = (Inr (Some \<lfloor>(of_int usdtAmount * of_int wokbReserve / of_int usdtReserve :: rat)\<rfloor>), s)"
        by (simp add: getOkbAmountFromRouter_tiers d rq fl)
    }
  qed
qed

lemma sample_token0_matches:
  "toLowerCase ''0x1E4A5963ABFD975D8C9021CE480B42188849D41D'' = toLowerCase (usdt sampleConfig)"
  by code_simp

lemma pair_not_zero: "''0xPair'' \<noteq> ZeroAddress"
  by (simp add: ZeroAddress_def)

theorem reserve_derived_quote_witness:
  "getOkbAmountFromRouter testnet sampleConfig alice 2700000 (fresh noPool) = (Inr None, fresh noPool)
   \<and> getOkbAmountFromRouter testnet sampleConfig alice 2700000 (fresh thinPool) = (Inr None, fresh thinPool)
   \<and> getOkbAmountFromRouter testnet sampleConfig alice 2700000 (fresh routeDown)
       = (Inr (Some 16029446687247684), fresh routeDown)"
proof -
  have 1: "getOkbAmountFromRouter testnet sampleConfig alice 2700000 (fresh noPool) = (Inr None, fresh noPool)"
    using reserve_derived_quote [where E = testnet and cfg = sampleConfig and s = "fresh noPool"
        and usdtAmount = 2700000 and e = callException and factoryAddress = "''0xFac''"
        and pairAddress = ZeroAddress and wallet = alice]
    by (simp add: testnet_def fresh_def noPool_def sampleLedger_def)
  have 2: "getOkbAmountFromRouter testnet sampleConfig alice 2700000 (fresh thinPool) = (Inr None, fresh thinPool)"
    using reserve_derived_quote [where E = testnet and cfg = sampleConfig and s = "fresh thinPool"
        and usdtAmount = 2700000 and e = callException and factoryAddress = "''0xFac''"
        and pairAddress = "''0xPair''" and wallet = alice
        and ?reserve0.0 = 16844000 and ?reserve1.0 = 99999999999999999
        and ?token0.0 = "''0x1E4A5963ABFD975D8C9021CE480B42188849D41D''"
        and usdtReserve = 16844000 and wokbReserve = 99999999999999999]
      sample_token0_matches pair_not_zero
    by (simp add: testnet_def fresh_def thinPool_def sampleLedger_def minWokbReserve_def)
  have 3: "getOkbAmountFromRouter testnet sampleConfig alice 2700000 (fresh routeDown)
       = (Inr (Some \<lfloor>(of_int 2700000 * of_int 1000000000000000000000 / of_int 168440000000 :: rat)\<rfloor>), fresh routeDown)"
    using reserve_derived_quote [where E = testnet and cfg = sampleConfig and s = "fresh routeDown"
        and usdtAmount = 2700000 and e = callException and factoryAddress = "''0xFac''"
        and pairAddress = "''0xPair''" and wallet = alice
        and ?reserve0.0 = 168440000000 and ?reserve1.0 = 1000000000000000000000
        and ?token0.0 = "''0x1E4A5963ABFD975D8C9021CE480B42188849D41D''"
        and usdtReserve = 168440000000 and wokbReserve = 1000000000000000000000]
      sample_token0_matches pair_not_zero
    by (simp add: testnet_def fresh_def routeDown_def sampleLedger_def minWokbReserve_def quoteFormula_def)
  have f: "\<lfloor>(of_int 2700000 * of_int 1000000000000000000000 / of_int 168440000000 :: rat)\<rfloor> = 16029446687247684"
    by (simp only: of_int_mult [symmetric] floor_divide_of_int_eq)
  show ?thesis using 1 2 3 unfolding f by simp
qed






section \<open>The batch run: properties\<close>









lemma groupsOf_Nil [simp]: "groupsOf limit [] = []"
  by (simp add: groupsOf.simps)













section \<open>A tolerance that is not an integer\<close>














lemma validateConfig_sampleConfig: "validateConfig sampleConfig = Inr ()"
  by code_simp

lemma loadSubWallets_sample: "loadSubWallets testnet (subWalletPrivateKeys sampleConfig) = Inr [alice, bob]"
  by code_simp




section \<open>The balance check before the run: properties\<close>

lemma checkWallet_read:
  assumes "provider_getBalance E (address wallet) c = Inr okbBalance"
    and "requiredOkb q = Inr okbRequired"
    and "erc20_balanceOf E (usdt cfg) (address wallet) c = Inr usdtBalance"
    and "requiredUsdt q = Inr usdtRequired"
  shows "checkWallet E cfg q i wallet c
        = Inr (okbRequired \<le> okbBalance \<and> usdtRequired \<le> usdtBalance,
               [WalletBalances (i + 1) okbBalance usdtBalance,
                if okbRequired \<le> okbBalance then OkbSufficient else OkbInsufficient,
                if usdtRequired \<le> usdtBalance then UsdtSufficient else UsdtInsufficient])"
  using assms by (simp add: checkWallet_def)

lemma validateLoop_valid:
  "fst (validateLoop E cfg q i wallets allValid out c) \<longleftrightarrow>
     allValid \<and> (\<forall>k < length wallets. \<exists>lines. checkWallet E cfg q (i + k) (wallets ! k) c = Inr (True, lines))"
proof (induction wallets arbitrary: i allValid out)
  case Nil
  show ?case by simp
next
  case (Cons w ws)
  show ?case
  proof (cases "checkWallet E cfg q i w c")
    case (Inl e)
    then show ?thesis by (auto simp: Cons All_less_Suc2)
  next
    case (Inr r)
    then show ?thesis by (cases r) (auto simp: Cons All_less_Suc2)
  qed
qed

text \<open>
  C7, as amended. The check of one wallet compares with \<open>\<ge>\<close>, so a balance equal to the
  requirement is sufficient; it prints the wallet's two balances and one verdict per asset,
  naming the asset that is insufficient (no deficit is computed). \<open>validateWalletBalances\<close>
  returns true exactly when every wallet's check succeeds with both assets sufficient.
  When it returns false, \<open>main\<close> throws before any job starts: the run ends with that error
  in an unchanged state, so no wallet, funded or not, attempts a submission.
\<close>

theorem funding_check:
  "(provider_getBalance E (address wallet) c = Inr okbBalance \<longrightarrow>
    requiredOkb q = Inr okbRequired \<longrightarrow>
    erc20_balanceOf E (usdt cfg) (address wallet) c = Inr usdtBalance \<longrightarrow>
    requiredUsdt q = Inr usdtRequired \<longrightarrow>
      checkWallet E cfg q i wallet c
        = Inr (okbRequired \<le> okbBalance \<and> usdtRequired \<le> usdtBalance,
               [WalletBalances (i + 1) okbBalance usdtBalance,
                if okbRequired \<le> okbBalance then OkbSufficient else OkbInsufficient,
                if usdtRequired \<le> usdtBalance then UsdtSufficient else UsdtInsufficient]))
   \<and> (fst (validateWalletBalances E cfg q wallets c) \<longleftrightarrow>
        (\<forall>k < length wallets. \<exists>lines. checkWallet E cfg q k (wallets ! k) c = Inr (True, lines)))
   \<and> (validateConfig cfg = Inr () \<longrightarrow>
        loadSubWallets E (subWalletPrivateKeys cfg) = Inr wallets \<longrightarrow>
        \<not> fst (validateWalletBalances E cfg q wallets (chain s)) \<longrightarrow>
        main E cfg q s = (Inl BalancesInvalid, s))"
proof (intro conjI impI)
  show "fst (validateWalletBalances E cfg q wallets c) \<longleftrightarrow>
        (\<forall>k < length wallets. \<exists>lines. checkWallet E cfg q k (wallets ! k) c = Inr (True, lines))"
    by (simp add: validateWalletBalances_def validateLoop_valid)
next
  assume "provider_getBalance E (address wallet) c = Inr okbBalance"
    "requiredOkb q = Inr okbRequired"
    "erc20_balanceOf E (usdt cfg) (address wallet) c = Inr usdtBalance"
    "requiredUsdt q = Inr usdtRequired"
  then show "checkWallet E cfg q i wallet c
        = Inr (okbRequired \<le> okbBalance \<and> usdtRequired \<le> usdtBalance,
               [WalletBalances (i + 1) okbBalance usdtBalance,
                if okbRequired \<le> okbBalance then OkbSufficient else OkbInsufficient,
                if usdtRequired \<le> usdtBalance then UsdtSufficient else UsdtInsufficient])"
    by (rule checkWallet_read)
next
  assume "validateConfig cfg = Inr ()" "loadSubWallets E (subWalletPrivateKeys cfg) = Inr wallets"
    "\<not> fst (validateWalletBalances E cfg q wallets (chain s))"
  then show "main E cfg q s = (Inl BalancesInvalid, s)"
    by (simp add: main_def)
qed

text \<open>
  C7 as stated fails: of two wallets, the first holds exactly the required amounts and the
  second is 0.000001 USDT short. The check reports the second wallet's USDT as
  insufficient, and \<open>main\<close> ends with the error of the balance check without a single call:
  the funded sibling's job does not proceed either.
\<close>

theorem shortfall_aborts_whole_run:
  "checkWallet testnet sampleConfig sampleQuantities 0 alice bobShort
     = Inr (True, [WalletBalances 1 10000000000000000 3000000, OkbSufficient, UsdtSufficient])
   \<and> checkWallet testnet sampleConfig sampleQuantities 1 bob bobShort
     = Inr (False, [WalletBalances 2 10000000000000000 2999999, OkbSufficient, UsdtInsufficient])
   \<and> fst (main testnet sampleConfig sampleQuantities (fresh bobShort)) = Inl BalancesInvalid
   \<and> calls (snd (main testnet sampleConfig sampleQuantities (fresh bobShort))) = []"
  by code_simp

theorem funding_check_witness:
  "fst (validateWalletBalances testnet sampleConfig sampleQuantities [alice, bob] sampleLedger)
   \<and> checkWallet testnet sampleConfig sampleQuantities 1 bob bobShort
     = Inr (False, [WalletBalances 2 10000000000000000 2999999, OkbSufficient, UsdtInsufficient])
   \<and> main testnet sampleConfig sampleQuantities (fresh bobShort) = (Inl BalancesInvalid, fresh bobShort)"
proof -
  note t1 = funding_check [where E = testnet and cfg = sampleConfig and q = sampleQuantities
      and wallets = "[alice, bob]" and c = sampleLedger and s = "fresh sampleLedger"
      and wallet = alice and i = 0 and okbBalance = 10000000000000000 and okbRequired = 10000000000000000
      and usdtBalance = 3000000 and usdtRequired = 3000000]
  note t2 = funding_check [where E = testnet and cfg = sampleConfig and q = sampleQuantities
      and wallets = "[alice, bob]" and c = bobShort and s = "fresh bobShort"
      and wallet = bob and i = 1 and okbBalance = 10000000000000000 and okbRequired = 10000000000000000
      and usdtBalance = 2999999 and usdtRequired = 3000000]
  have a: "checkWallet testnet sampleConfig sampleQuantities k w sampleLedger
           = Inr (True, [WalletBalances (k + 1) 10000000000000000 3000000, OkbSufficient, UsdtSufficient])" for k w
    by (simp add: checkWallet_def testnet_def sampleQuantities_def sampleLedger_def)
  have 1: "fst (validateWalletBalances testnet sampleConfig sampleQuantities [alice, bob] sampleLedger)"
    using t1 [THEN conjunct2, THEN conjunct1] a by simp
  have 2: "checkWallet testnet sampleConfig sampleQuantities 1 bob bobShort
     = Inr (False, [WalletBalances 2 10000000000000000 2999999, OkbSufficient, UsdtInsufficient])"
    using t2 [THEN conjunct1]
    by (simp add: testnet_def sampleQuantities_def bobShort_def bob_def sampleLedger_def)
  have n: "\<not> fst (validateWalletBalances testnet sampleConfig sampleQuantities [alice, bob] bobShort)"
    using t2 [THEN conjunct2, THEN conjunct1] 2 by (auto simp: less_Suc_eq)
  have 3: "main testnet sampleConfig sampleQuantities (fresh bobShort) = (Inl BalancesInvalid, fresh bobShort)"
    using t2 [THEN conjunct2, THEN conjunct2] validateConfig_sampleConfig loadSubWallets_sample n
    by (simp add: fresh_def)
  show ?thesis using 1 2 3 by simp
qed

end
